theory Spec2Isabelle
  imports Main
begin

section \<open>Python values used by the pre-commit checker\<close>

text \<open>
  The development embeds \<^verbatim>\<open>scripts/pre_commit_check.py\<close>. A Python \<^verbatim>\<open>str\<close> is a
  sequence of Unicode code points, so it is a list of naturals here; \<open>py\<close> turns an ASCII
  literal into such a list, and the few accented letters of the script's messages are
  written by their code points (233 is e-acute, 232 e-grave, 201 capital e-acute).
\<close>

type_synonym pystr = "nat list"

definition py :: "string \<Rightarrow> pystr" where
  "py s = map of_char s"

text \<open>The exceptions the script can meet. The first five are subclasses of
  \<^verbatim>\<open>Exception\<close>; \<open>KeyboardInterrupt\<close> and \<open>SystemExit\<close> are not.\<close>

datatype exn =
    KeyError pystr
  | TypeError
  | AttributeError
  | EOFError
  | OtherException pystr
  | KeyboardInterrupt
  | SystemExit int

fun is_Exception :: "exn \<Rightarrow> bool" where
  "is_Exception KeyboardInterrupt = False"
| "is_Exception (SystemExit n) = False"
| "is_Exception e = True"

text \<open>What \<^verbatim>\<open>json.load\<close> returns. A float is kept as mantissa and binary exponent, or
  as one of the three special values the decoder accepts.\<close>

datatype pyfloat = Finite int int | NaN | PosInf | NegInf

datatype json =
    JNull
  | JBool bool
  | JInt int
  | JFloat pyfloat
  | JStr pystr
  | JList "json list"
  | JObj "(pystr \<times> json) list"

text \<open>Truth value of an object in a condition (\<^verbatim>\<open>if x\<close>, \<^verbatim>\<open>not x\<close>).\<close>

fun truthy :: "json \<Rightarrow> bool" where
  "truthy JNull = False"
| "truthy (JBool b) = b"
| "truthy (JInt i) = (i \<noteq> 0)"
| "truthy (JFloat (Finite m e)) = (m \<noteq> 0)"
| "truthy (JFloat f) = True"
| "truthy (JStr s) = (s \<noteq> [])"
| "truthy (JList xs) = (xs \<noteq> [])"
| "truthy (JObj kvs) = (kvs \<noteq> [])"

text \<open>\<^verbatim>\<open>d[k]\<close> with a string key: a dictionary without the key raises \<^verbatim>\<open>KeyError\<close>, any
  other decoded value raises \<^verbatim>\<open>TypeError\<close>.\<close>

fun subscr :: "json \<Rightarrow> pystr \<Rightarrow> exn + json" where
  "subscr (JObj kvs) k = (case map_of kvs k of None \<Rightarrow> Inl (KeyError k) | Some v \<Rightarrow> Inr v)"
| "subscr j k = Inl TypeError"

text \<open>\<^verbatim>\<open>d.get(k, default)\<close>: only a dictionary has the method.\<close>

fun get_default :: "json \<Rightarrow> pystr \<Rightarrow> json \<Rightarrow> exn + json" where
  "get_default (JObj kvs) k d = (case map_of kvs k of None \<Rightarrow> Inr d | Some v \<Rightarrow> Inr v)"
| "get_default j k d = Inl AttributeError"

text \<open>Sequencing of lookups that may raise.\<close>

definition and_then :: "exn + 'a \<Rightarrow> ('a \<Rightarrow> exn + 'b) \<Rightarrow> exn + 'b" where
  "and_then r f = (case r of Inl e \<Rightarrow> Inl e | Inr x \<Rightarrow> f x)"

text \<open>\<^verbatim>\<open>self.config["checks"][name]\<close>.\<close>

definition check_entry :: "json \<Rightarrow> pystr \<Rightarrow> exn + json" where
  "check_entry cfg name = and_then (subscr cfg (py ''checks'')) (\<lambda>cs. subscr cs name)"

text \<open>\<^verbatim>\<open>self.config["checks"][name][key]\<close>.\<close>

definition check_param :: "json \<Rightarrow> pystr \<Rightarrow> pystr \<Rightarrow> exn + json" where
  "check_param cfg name key = and_then (check_entry cfg name) (\<lambda>c. subscr c key)"

text \<open>\<^verbatim>\<open>self.config["checks"][name].get(key, default)\<close>.\<close>

definition check_option :: "json \<Rightarrow> pystr \<Rightarrow> pystr \<Rightarrow> json \<Rightarrow> exn + json" where
  "check_option cfg name key d = and_then (check_entry cfg name) (\<lambda>c. get_default c key d)"

subsection \<open>String operations\<close>

text \<open>The code points for which \<^verbatim>\<open>str.isspace\<close> holds; \<^verbatim>\<open>str.strip()\<close> removes them at
  both ends.\<close>

definition isspace :: "nat \<Rightarrow> bool" where
  "isspace c = ((9 \<le> c \<and> c \<le> 13) \<or> (28 \<le> c \<and> c \<le> 32) \<or> c = 133 \<or> c = 160
     \<or> c = 5760 \<or> (8192 \<le> c \<and> c \<le> 8202) \<or> c = 8232 \<or> c = 8233 \<or> c = 8239
     \<or> c = 8287 \<or> c = 12288)"

definition strip :: "pystr \<Rightarrow> pystr" where
  "strip s = rev (dropWhile isspace (rev (dropWhile isspace s)))"

text \<open>\<^verbatim>\<open>s.split('\n')\<close>: the pieces between line feeds; the empty string gives one empty
  piece.\<close>

fun split_nl :: "pystr \<Rightarrow> pystr list" where
  "split_nl [] = [[]]"
| "split_nl (c # cs) =
     (if c = 10 then [] # split_nl cs
      else (case split_nl cs of [] \<Rightarrow> [[c]] | l # ls \<Rightarrow> (c # l) # ls))"

definition startswith :: "pystr \<Rightarrow> pystr \<Rightarrow> bool" where
  "startswith s p = (take (length p) s = p)"

text \<open>\<^verbatim>\<open>sub in s\<close> for two strings.\<close>

fun contains :: "pystr \<Rightarrow> pystr \<Rightarrow> bool" where
  "contains [] sub = (sub = [])"
| "contains (c # cs) sub = (startswith (c # cs) sub \<or> contains cs sub)"

text \<open>\<^verbatim>\<open>sep.join(parts)\<close> for a list of strings.\<close>

fun join :: "pystr \<Rightarrow> pystr list \<Rightarrow> pystr" where
  "join sep [] = []"
| "join sep [x] = x"
| "join sep (x # y # ys) = x @ sep @ join sep (y # ys)"

text \<open>Decimal text of a number, as \<^verbatim>\<open>str(n)\<close> and an f-string print it.\<close>

fun str_nat :: "nat \<Rightarrow> pystr" where
  "str_nat n = (if n < 10 then [48 + n] else str_nat (n div 10) @ [48 + n mod 10])"

definition str_int :: "int \<Rightarrow> pystr" where
  "str_int i = (if i < 0 then 45 # str_nat (nat (- i)) else str_nat (nat i))"

text \<open>Iterating a decoded value (\<^verbatim>\<open>for x in v\<close>, and the argument of \<^verbatim>\<open>join\<close>): a list
  gives its elements, a string its characters, a dictionary its keys; anything else is not
  iterable.\<close>

fun iterate :: "json \<Rightarrow> exn + json list" where
  "iterate (JList xs) = Inr xs"
| "iterate (JStr s) = Inr (map (\<lambda>c. JStr [c]) s)"
| "iterate (JObj kvs) = Inr (map JStr (remdups (map fst kvs)))"
| "iterate j = Inl TypeError"

text \<open>\<^verbatim>\<open>sep.join(v)\<close> for a decoded value: every item must be a string.\<close>

fun the_strs :: "json list \<Rightarrow> exn + pystr list" where
  "the_strs [] = Inr []"
| "the_strs (JStr s # js) = and_then (the_strs js) (\<lambda>ss. Inr (s # ss))"
| "the_strs (j # js) = Inl TypeError"

definition join_json :: "pystr \<Rightarrow> json \<Rightarrow> exn + pystr" where
  "join_json sep v = and_then (iterate v) (\<lambda>items. and_then (the_strs items) (\<lambda>ss. Inr (join sep ss)))"

text \<open>\<^verbatim>\<open>"name" in v\<close> for a decoded value: membership in a list, substring of a
  string, key of a dictionary.\<close>

fun str_in :: "pystr \<Rightarrow> json \<Rightarrow> exn + bool" where
  "str_in s (JList xs) = Inr (JStr s \<in> set xs)"
| "str_in s (JStr t) = Inr (contains t s)"
| "str_in s (JObj kvs) = Inr (s \<in> set (map fst kvs))"
| "str_in s j = Inl TypeError"

section \<open>Results, environment and checker state\<close>

text \<open>The class \<^verbatim>\<open>CheckResult\<close>.\<close>

record CheckResult =
  name :: pystr
  passed :: bool
  message :: pystr
  can_fix :: bool
  fix_command :: pystr
  details :: "pystr list"

text \<open>The constructor, with its defaults written out at each call.\<close>

definition mk_result :: "pystr \<Rightarrow> bool \<Rightarrow> pystr \<Rightarrow> bool \<Rightarrow> pystr \<Rightarrow> pystr list \<Rightarrow> CheckResult" where
  "mk_result n p m c f d =
     \<lparr>name = n, passed = p, message = m, can_fix = c, fix_command = f, details = d\<rparr>"

text \<open>How a call of \<^verbatim>\<open>subprocess.run\<close> ends: the process completes with a return code
  and its two captured streams, the timeout expires, the call raises some other
  \<^verbatim>\<open>Exception\<close> (the executable is missing, an argument is not a string, the output does
  not decode), or the operator interrupts it.\<close>

datatype proc =
    Completed int pystr pystr
  | TimeoutExpired
  | LaunchError pystr
  | Interrupted

text \<open>How \<^verbatim>\<open>input\<close> ends.\<close>

datatype keyboard = Line pystr | EndOfInput | CtrlC

text \<open>How opening and decoding the configuration file ends.\<close>

datatype load = Loaded json | FileNotFound | JSONDecodeError | LoadFailed pystr

text \<open>
  Everything outside the script is a parameter: the world \<open>'w\<close> (the working tree, the
  installed tools, the terminal) and the operations of the operating system and of the
  Python runtime that act on it. Running a process and reading a line change the world;
  the other operations only read it.
\<close>

record 'w env =
  subprocess_run :: "json list \<Rightarrow> nat \<Rightarrow> 'w \<Rightarrow> proc \<times> 'w"
  input_line :: "pystr \<Rightarrow> 'w \<Rightarrow> keyboard \<times> 'w"
  open_json :: "pystr \<Rightarrow> 'w \<Rightarrow> load"
  path_exists :: "pystr \<Rightarrow> 'w \<Rightarrow> bool"
  read_text :: "pystr \<Rightarrow> 'w \<Rightarrow> exn + pystr"
  rglob_py :: "'w \<Rightarrow> pystr list"
  os_name_nt :: bool
  json_loads :: "pystr \<Rightarrow> exn + json"
  re_search_ic :: "pystr \<Rightarrow> pystr \<Rightarrow> bool"
  re_match_ic :: "pystr \<Rightarrow> pystr \<Rightarrow> exn + bool"
  lower :: "pystr \<Rightarrow> pystr"
  repr :: "json \<Rightarrow> pystr"

text \<open>\<^verbatim>\<open>str(v)\<close> of a decoded value; the text of floats, lists and dictionaries is left to
  the runtime.\<close>

fun str_of :: "'w env \<Rightarrow> json \<Rightarrow> pystr" where
  "str_of E (JStr s) = s"
| "str_of E (JInt i) = str_int i"
| "str_of E (JBool b) = (if b then py ''True'' else py ''False'')"
| "str_of E JNull = py ''None''"
| "str_of E j = repr E j"

text \<open>An action the checker observes from outside: a process it started, with the timeout
  it gave, or a question it asked on the terminal.\<close>

datatype action = Ran "json list" nat | Asked pystr

text \<open>
  The object \<^verbatim>\<open>PreCommitChecker\<close>. The three mode fields hold whatever the configuration
  file gave, so they are decoded values read through \<open>truthy\<close>. \<open>world\<close> is the current
  state of the world and \<open>actions\<close> the record of what the checker did to it, in order; the
  script has neither field, they make its effects visible.
\<close>

record 'w checker =
  config :: json
  errors :: "pystr list"
  warnings :: "pystr list"
  fixes_applied :: "pystr list"
  strict_mode :: json
  auto_fix :: json
  interactive :: json
  world :: 'w
  actions :: "action list"

text \<open>An operation of the checker (one of its methods): it raises, or returns a value and the checker as it left
  it.\<close>

type_synonym ('a, 'w) operation = "'w checker \<Rightarrow> exn + ('a \<times> 'w checker)"

definition ret :: "'a \<Rightarrow> ('a, 'w) operation" where
  "ret x st = Inr (x, st)"

definition seq :: "('a, 'w) operation \<Rightarrow> ('a \<Rightarrow> ('b, 'w) operation) \<Rightarrow> ('b, 'w) operation" where
  "seq m f st = (case m st of Inl e \<Rightarrow> Inl e | Inr (x, st1) \<Rightarrow> f x st1)"

text \<open>A lookup in \<^verbatim>\<open>self.config\<close>, which raises or gives a value and changes nothing.\<close>

definition from_config :: "(json \<Rightarrow> exn + 'a) \<Rightarrow> ('a, 'w) operation" where
  "from_config f st = (case f (config st) of Inl e \<Rightarrow> Inl e | Inr x \<Rightarrow> Inr (x, st))"

definition lift :: "exn + 'a \<Rightarrow> ('a, 'w) operation" where
  "lift r st = (case r of Inl e \<Rightarrow> Inl e | Inr x \<Rightarrow> Inr (x, st))"

text \<open>Reading the world.\<close>

definition observe :: "('w \<Rightarrow> 'a) \<Rightarrow> ('a, 'w) operation" where
  "observe f st = Inr (f (world st), st)"

subsection \<open>Configuration\<close>

definition default_config :: json where
  "default_config = JObj
     [(py ''strict_mode'', JBool True),
      (py ''auto_fix'', JBool True),
      (py ''interactive'', JBool True),
      (py ''checks'', JObj
        [(py ''linter'', JObj [(py ''enabled'', JBool True)]),
         (py ''tests'', JObj [(py ''enabled'', JBool True)]),
         (py ''django'', JObj [(py ''enabled'', JBool True)]),
         (py ''security'', JObj [(py ''enabled'', JBool True)]),
         (py ''files'', JObj [(py ''enabled'', JBool True)]),
         (py ''git'', JObj [(py ''enabled'', JBool True), (py ''conventional_commits'', JBool True)])])]"

text \<open>\<^verbatim>\<open>_load_config\<close>: a missing file gives the default configuration, a file that does
  not decode ends the process with \<^verbatim>\<open>sys.exit(1)\<close>, any other failure of \<^verbatim>\<open>open\<close>
  propagates.\<close>

definition load_config :: "'w env \<Rightarrow> pystr \<Rightarrow> 'w \<Rightarrow> exn + json" where
  "load_config E config_path w =
     (case open_json E config_path w of
        Loaded j \<Rightarrow> Inr j
      | FileNotFound \<Rightarrow> Inr default_config
      | JSONDecodeError \<Rightarrow> Inl (SystemExit 1)
      | LoadFailed m \<Rightarrow> Inl (OtherException m))"

text \<open>\<^verbatim>\<open>__init__\<close>. The colour switch is read (and may raise) but colours are not
  modelled.\<close>

definition init :: "'w env \<Rightarrow> pystr \<Rightarrow> 'w \<Rightarrow> exn + 'w checker" where
  "init E config_path w =
     and_then (load_config E config_path w) (\<lambda>cfg.
     and_then (get_default cfg (py ''colors'') (JObj [])) (\<lambda>colors.
     and_then (get_default colors (py ''enabled'') (JBool True)) (\<lambda>colors_enabled.
     and_then (get_default cfg (py ''strict_mode'') (JBool True)) (\<lambda>sm.
     and_then (get_default cfg (py ''auto_fix'') (JBool True)) (\<lambda>af.
     and_then (get_default cfg (py ''interactive'') (JBool True)) (\<lambda>ia.
       Inr \<lparr>config = cfg, errors = [], warnings = [], fixes_applied = [],
            strict_mode = sm, auto_fix = af, interactive = ia, world = w, actions = []\<rparr>))))))"

subsection \<open>Running commands and asking the operator\<close>

text \<open>\<^verbatim>\<open>_run_command\<close>: a timeout and any other \<^verbatim>\<open>Exception\<close> are turned into the return
  code \<open>-1\<close> with a message on the error stream; an interrupt is not caught.\<close>

definition timeout_message :: "nat \<Rightarrow> pystr" where
  "timeout_message t = py ''Commande expir'' @ [233] @ py ''e apr'' @ [232] @ py ''s '' @ str_nat t @ py ''s''"

definition run_command :: "'w env \<Rightarrow> json list \<Rightarrow> nat \<Rightarrow> (int \<times> pystr \<times> pystr, 'w) operation" where
  "run_command E command timeout st =
     (case subprocess_run E command timeout (world st) of (outcome, w) \<Rightarrow>
        let st1 = st\<lparr>world := w, actions := actions st @ [Ran command timeout]\<rparr> in
        (case outcome of
           Completed returncode out err \<Rightarrow> Inr ((returncode, out, err), st1)
         | TimeoutExpired \<Rightarrow> Inr ((- 1, [], timeout_message timeout), st1)
         | LaunchError m \<Rightarrow> Inr ((- 1, [], m), st1)
         | Interrupted \<Rightarrow> Inl KeyboardInterrupt))"

text \<open>\<^verbatim>\<open>_confirm\<close>: without a terminal the answer is \<^verbatim>\<open>self.auto_fix\<close>; with one, the
  stripped, lower-cased line is compared with the accepted answers, and the end of input
  or an interrupt at the prompt is caught and answered \<^verbatim>\<open>False\<close>.\<close>

definition prompt_text :: "pystr \<Rightarrow> pystr" where
  "prompt_text m = m @ py '' [O/n] : ''"

definition confirm :: "'w env \<Rightarrow> pystr \<Rightarrow> (json, 'w) operation" where
  "confirm E m st =
     (if \<not> truthy (interactive st) then Inr (auto_fix st, st)
      else
        (case input_line E (prompt_text m) (world st) of (k, w) \<Rightarrow>
           let st1 = st\<lparr>world := w, actions := actions st @ [Asked (prompt_text m)]\<rparr> in
           (case k of
              Line l \<Rightarrow>
                Inr (JBool (lower E (strip l) \<in> set [[], py ''o'', py ''oui'', py ''y'', py ''yes'']), st1)
            | EndOfInput \<Rightarrow> Inr (JBool False, st1)
            | CtrlC \<Rightarrow> Inr (JBool False, st1))))"

text \<open>A command whose words are all literal strings.\<close>

definition words :: "string list \<Rightarrow> json list" where
  "words ws = map (\<lambda>w. JStr (py w)) ws"

definition check_tool_installed :: "'w env \<Rightarrow> pystr \<Rightarrow> (bool, 'w) operation" where
  "check_tool_installed E tool =
     seq (run_command E (if \<not> os_name_nt E then [JStr (py ''which''), JStr tool]
                         else [JStr (py ''where''), JStr tool]) 60) (\<lambda>(return_code, out, err).
     if return_code \<noteq> 0 then
       seq (run_command E (words [''pip'', ''show''] @ [JStr tool]) 60) (\<lambda>(return_code, out, err).
       ret (return_code = 0))
     else ret (return_code = 0))"

definition install_tool :: "'w env \<Rightarrow> pystr \<Rightarrow> (bool, 'w) operation" where
  "install_tool E tool =
     seq (confirm E (py ''Installer '' @ tool @ py '' ?'')) (\<lambda>answer.
     if truthy answer then
       seq (run_command E (words [''pip'', ''install''] @ [JStr tool]) 60) (\<lambda>(return_code, out, err).
       ret (return_code = 0))
     else ret False)"

section \<open>The six checks\<close>

text \<open>Each check is one method of the script, in the script's order of statements.
  Progress messages printed by the checks are not modelled.\<close>

definition disabled_result :: "pystr \<Rightarrow> pystr \<Rightarrow> CheckResult" where
  "disabled_result n m = mk_result n True m False [] []"

subsection \<open>Linter\<close>

definition check_linter :: "'w env \<Rightarrow> (CheckResult, 'w) operation" where
  "check_linter E =
     seq (from_config (\<lambda>c. check_param c (py ''linter'') (py ''enabled''))) (\<lambda>enabled.
     if \<not> truthy enabled then
       ret (disabled_result (py ''Linter'') (py ''D'' @ [233] @ py ''sactiv'' @ [233]))
     else
     seq (check_tool_installed E (py ''flake8'')) (\<lambda>installed.
     seq (if \<not> installed then install_tool E (py ''flake8'') else ret True) (\<lambda>available.
     if \<not> available then
       ret (mk_result (py ''Linter'') False (py ''Flake8 non install'' @ [233]) False [] [])
     else
     seq (from_config (\<lambda>c. and_then (check_param c (py ''linter'') (py ''exclude''))
                               (join_json (py '','')))) (\<lambda>exclude.
     seq (from_config (\<lambda>c. check_param c (py ''linter'') (py ''max_line_length''))) (\<lambda>max_line_length.
     seq (run_command E
            (words [''flake8'', ''.'', ''--exclude''] @ [JStr exclude]
             @ words [''--max-line-length''] @ [JStr (str_of E max_line_length)]
             @ words [''--ignore'', ''D100,D101,D102,D103,D104,D400,D401'']) 60)
         (\<lambda>(returncode, out, err).
     if returncode = 0 then
       ret (mk_result (py ''Linter'') True (py ''Aucune erreur d'' @ [233] @ py ''tect'' @ [233] @ py ''e'')
              False [] [])
     else
       let errs = (if out \<noteq> [] then split_nl (strip out) else []);
           error_count = length (filter (\<lambda>e. strip e \<noteq> []) errs);
           ds = [str_nat error_count @ py '' erreur(s) de style d'' @ [233] @ py ''tect''
                   @ [233] @ py ''e(s)'',
                 py ''Exemples d'erreurs :''] @ take 5 errs
       in
       seq (check_tool_installed E (py ''black'')) (\<lambda>black.
       if black then
         ret (mk_result (py ''Linter'') False (str_nat error_count @ py '' erreurs de style'')
                True (py ''black .'') ds)
       else
         ret (mk_result (py ''Linter'') False (str_nat error_count @ py '' erreurs de style'')
                False [] ds))))))))"

definition fix_linter :: "'w env \<Rightarrow> (bool, 'w) operation" where
  "fix_linter E =
     seq (check_tool_installed E (py ''black'')) (\<lambda>has_black.
     seq (if has_black then
            seq (run_command E (words [''black'', ''.'', ''--exclude'',
                   ''/(env|venv|__pycache__|migrations|scripts|logs)/'']) 60)
                (\<lambda>(returncode, out, err). ret (returncode = 0))
          else ret False) (\<lambda>fixed.
     seq (check_tool_installed E (py ''isort'')) (\<lambda>has_isort.
     if has_isort then
       seq (run_command E (words [''isort'', ''.'', ''--skip'', ''env'', ''--skip'', ''venv'',
              ''--skip'', ''__pycache__'', ''--skip'', ''migrations'', ''--skip'', ''scripts'',
              ''--skip'', ''logs'']) 60)
           (\<lambda>(returncode, out, err). ret (if returncode = 0 then True else fixed))
     else ret fixed)))"

subsection \<open>Tests\<close>

text \<open>The loop over the output lines that keeps each \<^verbatim>\<open>FAIL:\<close> or \<^verbatim>\<open>ERROR:\<close> line and
  the line after it.\<close>

fun failure_lines :: "pystr list \<Rightarrow> pystr list" where
  "failure_lines [] = []"
| "failure_lines (l # ls) =
     (if startswith l (py ''FAIL:'') \<or> startswith l (py ''ERROR:'')
      then l # (case ls of [] \<Rightarrow> [] | n # ns \<Rightarrow> [n]) else [])
     @ failure_lines ls"

definition check_tests :: "'w env \<Rightarrow> (CheckResult, 'w) operation" where
  "check_tests E =
     seq (from_config (\<lambda>c. check_param c (py ''tests'') (py ''enabled''))) (\<lambda>enabled.
     if \<not> truthy enabled then
       ret (disabled_result (py ''Tests'') (py ''D'' @ [233] @ py ''sactiv'' @ [233] @ py ''s''))
     else
     seq (from_config (\<lambda>c. check_option c (py ''tests'') (py ''test_module'') (JStr []))) (\<lambda>test_module.
     seq (run_command E
            (if truthy test_module
             then words [''python'', ''manage.py'', ''test''] @ [test_module] @ words [''--verbosity=1'']
             else words [''python'', ''manage.py'', ''test'', ''--verbosity=1'']) 120)
         (\<lambda>(returncode, out, err).
     if returncode = 0 then
       let test_count = length (filter (\<lambda>line. contains (lower E line) (py ''test'')
                                              \<and> contains (lower E line) (py ''ok'')) (split_nl out))
       in ret (mk_result (py ''Tests'') True
                 (py ''Tous les tests passent ('' @ str_nat test_count @ py '' tests)'') False [] [])
     else
       let ds = (if contains out (py ''FAIL'') \<or> contains out (py ''ERROR'')
                 then failure_lines (split_nl out) else [])
       in ret (mk_result (py ''Tests'') False (py ''Certains tests ont '' @ [233] @ py ''chou'' @ [233])
                 False [] (take 10 ds)))))"

subsection \<open>Django\<close>

definition migrations_created :: pystr where
  "migrations_created = py ''Migrations cr'' @ [233, 233] @ py ''es''"

definition check_django :: "'w env \<Rightarrow> (CheckResult, 'w) operation" where
  "check_django E =
     seq (from_config (\<lambda>c. check_param c (py ''django'') (py ''enabled''))) (\<lambda>enabled.
     if \<not> truthy enabled then
       ret (disabled_result (py ''Django'') (py ''D'' @ [233] @ py ''sactiv'' @ [233]))
     else
     seq (run_command E (words [''python'', ''manage.py'', ''check'', ''--verbosity=1'']) 60)
         (\<lambda>(returncode, out, err).
     if returncode \<noteq> 0 then
       ret (mk_result (py ''Django'') False (py ''Erreurs dans la configuration'') False []
              [if err \<noteq> [] then err else out])
     else
     seq (from_config (\<lambda>c. check_option c (py ''django'') (py ''check_deploy'') (JBool False))) (\<lambda>check_deploy.
     seq (if truthy check_deploy then
            seq (run_command E (words [''python'', ''manage.py'', ''check'', ''--deploy'', ''--verbosity=1'']) 60)
                (\<lambda>(returncode, out, err).
            if returncode \<noteq> 0 then
              ret (Some (mk_result (py ''Django'') False
                     (py ''Probl'' @ [232] @ py ''mes de configuration production'') False []
                     (take 5 (filter (\<lambda>line. contains line (py ''WARNING'') \<or> contains line (py ''ERROR''))
                                (split_nl (out @ err))))))
            else ret None)
          else ret None) (\<lambda>deploy_failure.
     case deploy_failure of Some r \<Rightarrow> ret r | None \<Rightarrow>
     seq (from_config (\<lambda>c. check_option c (py ''django'') (py ''check_migrations'') (JBool True))) (\<lambda>check_migrations.
     if truthy check_migrations then
       seq (run_command E (words [''python'', ''manage.py'', ''makemigrations'', ''--check'', ''--dry-run'']) 60)
           (\<lambda>(returncode, out, err).
       if returncode \<noteq> 0 then
         seq (from_config (\<lambda>c. check_option c (py ''django'') (py ''auto_migrate'') (JBool False))) (\<lambda>auto_migrate.
         seq (if truthy auto_migrate then
                seq (confirm E (py ''   Des migrations sont manquantes. Les cr'' @ [233] @ py ''er ?'')) (\<lambda>answer.
                if truthy answer then
                  seq (run_command E (words [''python'', ''manage.py'', ''makemigrations'']) 60)
                      (\<lambda>(returncode, out, err).
                  if returncode = 0 then
                    (\<lambda>st. Inr (True, st\<lparr>fixes_applied := fixes_applied st @ [migrations_created]\<rparr>))
                  else ret False)
                else ret False)
              else ret False) (\<lambda>created.
         if created then
           ret (mk_result (py ''Django'') True (py ''Configuration OK, migrations cr'' @ [233, 233] @ py ''es'')
                  False [] [])
         else
           ret (mk_result (py ''Django'') False (py ''Migrations manquantes'') True []
                  [py ''Ex'' @ [233] @ py ''cutez: python manage.py makemigrations''])))
       else ret (mk_result (py ''Django'') True (py ''Configuration Django OK'') False [] []))
     else ret (mk_result (py ''Django'') True (py ''Configuration Django OK'') False [] []))))))"

subsection \<open>Security\<close>

text \<open>One entry of the list \<^verbatim>\<open>results\<close>: the scan's name, whether it passed, its message and
  the optional list of detail lines (empty when the tuple has three components: the
  aggregation treats a missing and an empty list alike).\<close>

type_synonym scan = "pystr \<times> bool \<times> pystr \<times> pystr list"

definition no_vulnerability :: pystr where
  "no_vulnerability = py ''Aucune vuln'' @ [233] @ py ''rabilit'' @ [233] @ py '' d'' @ [233]
     @ py ''tect'' @ [233] @ py ''e''"

text \<open>The section on Bandit.\<close>

definition bandit_scan :: "'w env \<Rightarrow> (scan list, 'w) operation" where
  "bandit_scan E =
     seq (check_tool_installed E (py ''bandit'')) (\<lambda>installed.
     seq (if \<not> installed then install_tool E (py ''bandit'') else ret True) (\<lambda>ignored.
     seq (check_tool_installed E (py ''bandit'')) (\<lambda>installed.
     if installed then
       seq (run_command E (words [''bandit'', ''-r'', ''.'', ''-x'',
              ''./tests,./migrations,./env,./venv,./.git,__pycache__'', ''-ll'', ''--quiet'']) 60)
           (\<lambda>(returncode, out, err).
       if returncode \<noteq> 0 then ret [(py ''Bandit'', False, (if out \<noteq> [] then out else err), [])]
       else ret [(py ''Bandit'', True, no_vulnerability, [])])
     else ret [])))"

text \<open>The detail lines for a failed Safety run. The script decodes the output, takes the
  first five entries and formats two fields of each; whatever is raised on the way (the
  output does not decode, it is not a list, an entry is not a dictionary) is caught and
  replaced by the raw output.\<close>

definition vulnerability_line :: "'w env \<Rightarrow> json \<Rightarrow> exn + pystr" where
  "vulnerability_line E v =
     and_then (get_default v (py ''package'') (JStr (py ''N/A''))) (\<lambda>package.
     and_then (get_default v (py ''vulnerability'') (JStr (py ''N/A''))) (\<lambda>vulnerability.
       Inr (str_of E package @ py '': '' @ str_of E vulnerability)))"

fun all_or_raise :: "(exn + 'a) list \<Rightarrow> exn + 'a list" where
  "all_or_raise [] = Inr []"
| "all_or_raise (r # rs) = and_then r (\<lambda>x. and_then (all_or_raise rs) (\<lambda>xs. Inr (x # xs)))"

text \<open>\<^verbatim>\<open>vulnerabilities[:5]\<close>, iterated: a list gives its first five entries, a string
  its first five characters, and no other decoded value can be sliced.\<close>

fun first_five :: "json \<Rightarrow> exn + json list" where
  "first_five (JList vs) = Inr (take 5 vs)"
| "first_five (JStr s) = Inr (map (\<lambda>c. JStr [c]) (take 5 s))"
| "first_five j = Inl TypeError"

definition safety_details :: "'w env \<Rightarrow> pystr \<Rightarrow> pystr list" where
  "safety_details E out =
     (case and_then (if out \<noteq> [] then json_loads E out else Inr (JList [])) (\<lambda>vulnerabilities.
           and_then (first_five vulnerabilities) (\<lambda>vs.
             all_or_raise (map (vulnerability_line E) vs))) of
        Inr ds \<Rightarrow> ds
      | Inl e \<Rightarrow> [if out \<noteq> [] then out
                 else py ''Vuln'' @ [233] @ py ''rabilit'' @ [233] @ py ''s d'' @ [233] @ py ''tect''
                      @ [233] @ py ''es''])"

definition safety_scan :: "'w env \<Rightarrow> (scan list, 'w) operation" where
  "safety_scan E =
     seq (check_tool_installed E (py ''safety'')) (\<lambda>installed.
     seq (if \<not> installed then install_tool E (py ''safety'') else ret True) (\<lambda>ignored.
     seq (check_tool_installed E (py ''safety'')) (\<lambda>installed.
     if installed then
       seq (run_command E (words [''safety'', ''check'', ''--json'']) 120) (\<lambda>(returncode, out, err).
       if returncode \<noteq> 0 then
         ret [(py ''Safety'', False,
               py ''Vuln'' @ [233] @ py ''rabilit'' @ [233] @ py ''s dans les d'' @ [233] @ py ''pendances'',
               safety_details E out)]
       else ret [(py ''Safety'', True, no_vulnerability, [])])
     else ret [])))"

text \<open>The section on secret detection.\<close>

definition detect_secrets :: "json list" where
  "detect_secrets = words [''detect-secrets'', ''scan'', ''--all-files'', ''--baseline'', ''.secrets.baseline'']"

definition secrets_scan :: "'w env \<Rightarrow> (scan list, 'w) operation" where
  "secrets_scan E =
     seq (observe (path_exists E (py ''.secrets.baseline''))) (\<lambda>baseline.
     seq (if \<not> baseline then seq (run_command E detect_secrets 60) (\<lambda>r. ret True) else ret True) (\<lambda>ignored.
     seq (observe (path_exists E (py ''.secrets.baseline''))) (\<lambda>baseline.
     if baseline then
       seq (run_command E detect_secrets 60) (\<lambda>(returncode, out, err).
       if returncode \<noteq> 0 \<or> contains (lower E out) (py ''secrets'') then
         ret [(py ''Secrets'', False, py ''Secrets potentiels d'' @ [233] @ py ''tect'' @ [233] @ py ''s'',
               [py ''V'' @ [233] @ py ''rifiez le fichier .secrets.baseline''])]
       else ret [(py ''Secrets'', True, py ''Aucun secret d'' @ [233] @ py ''tect'' @ [233], [])])
     else ret [])))"

text \<open>\<^verbatim>\<open>_check_dangerous_patterns\<close>. The regular expressions are written with the code
  points of the backslash (92), the double quote (34) and the apostrophe (39).\<close>

definition quoted_literal :: pystr where
  "quoted_literal = py ''['' @ [34, 92, 39] @ py ''][^'' @ [34, 92, 39] @ py '']+['' @ [34, 92, 39] @ py '']''"

definition assigned :: "string \<Rightarrow> pystr" where
  "assigned lhs = py lhs @ [92] @ py ''s*='' @ [92] @ py ''s*''"

definition dangerous :: "(pystr \<times> pystr) list" where
  "dangerous =
     [(assigned ''SECRET_KEY'' @ quoted_literal, py ''SECRET_KEY en dur dans le code''),
      (assigned ''DEBUG'' @ py ''True'',
         py ''DEBUG = True (v'' @ [233] @ py ''rifiez que c'est intentionnel)''),
      (assigned ''ALLOWED_HOSTS'' @ [92] @ py ''['' @ [92] @ py ''s*'' @ [92] @ py ''*'' @ [92] @ py ''s*''
         @ [92] @ py '']'',
         py ''ALLOWED_HOSTS = ['*'] (trop permissif)''),
      (py ''eval'' @ [92] @ py ''s*'' @ [92] @ py ''('', py ''Utilisation d'eval() (dangereux)''),
      (py ''exec'' @ [92] @ py ''s*'' @ [92] @ py ''('', py ''Utilisation d'exec() (dangereux)''),
      (assigned ''password'' @ quoted_literal, py ''Mot de passe en dur dans le code''),
      (assigned ''api_key'' @ quoted_literal, py ''API key en dur dans le code'')]"

definition exclude_dirs :: "pystr list" where
  "exclude_dirs = map py [''env'', ''venv'', ''__pycache__'', ''migrations'', ''.git'', ''scripts'']"

definition file_patterns :: "'w env \<Rightarrow> 'w \<Rightarrow> pystr \<Rightarrow> pystr list" where
  "file_patterns E w py_file =
     (if list_ex (\<lambda>excluded. contains py_file excluded) exclude_dirs then []
      else (case read_text E py_file w of
              Inl e \<Rightarrow> []
            | Inr content \<Rightarrow>
                map (\<lambda>(pattern, description). py_file @ py '': '' @ description)
                  (filter (\<lambda>(pattern, description). re_search_ic E pattern content) dangerous)))"

definition check_dangerous_patterns :: "'w env \<Rightarrow> 'w \<Rightarrow> pystr list" where
  "check_dangerous_patterns E w = take 10 (concat (map (file_patterns E w) (rglob_py E w)))"

definition check_security :: "'w env \<Rightarrow> (CheckResult, 'w) operation" where
  "check_security E =
     seq (from_config (\<lambda>c. check_param c (py ''security'') (py ''enabled''))) (\<lambda>enabled.
     if \<not> truthy enabled then
       ret (disabled_result (py ''S'' @ [233] @ py ''curit'' @ [233])
              (py ''D'' @ [233] @ py ''sactiv'' @ [233] @ py ''e''))
     else
     seq (from_config (\<lambda>c. and_then (check_param c (py ''security'') (py ''tools''))
                               (str_in (py ''bandit'')))) (\<lambda>use_bandit.
     seq (if use_bandit then bandit_scan E else ret []) (\<lambda>bandit.
     seq (from_config (\<lambda>c. and_then (check_param c (py ''security'') (py ''tools''))
                               (str_in (py ''safety'')))) (\<lambda>use_safety.
     seq (if use_safety then safety_scan E else ret []) (\<lambda>safety.
     seq (from_config (\<lambda>c. check_option c (py ''security'') (py ''check_secrets'') (JBool True))) (\<lambda>check_secrets.
     seq (if truthy check_secrets then secrets_scan E else ret []) (\<lambda>secrets.
     seq (observe (check_dangerous_patterns E)) (\<lambda>dangerous_patterns.
     let patterns = (if dangerous_patterns \<noteq> []
                     then [(py ''Patterns'', False, py ''Patterns dangereux d'' @ [233] @ py ''tect'' @ [233] @ py ''s'',
                            dangerous_patterns)]
                     else [(py ''Patterns'', True, py ''Aucun pattern dangereux'', [])]);
         results = bandit @ safety @ secrets @ patterns;
         failed = filter (\<lambda>(n, ok, m, extra). \<not> ok) results
     in
     if failed \<noteq> [] then
       ret (mk_result (py ''S'' @ [233] @ py ''curit'' @ [233]) False
              (py ''Probl'' @ [232] @ py ''mes de s'' @ [233] @ py ''curit'' @ [233] @ py '' d'' @ [233]
               @ py ''tect'' @ [233] @ py ''s'') False []
              (concat (map (\<lambda>(n, ok, m, extra). (n @ py '': '' @ m) # extra) failed)))
     else
       ret (mk_result (py ''S'' @ [233] @ py ''curit'' @ [233]) True
              (py ''Aucun probl'' @ [232] @ py ''me de s'' @ [233] @ py ''curit'' @ [233] @ py '' d'' @ [233]
               @ py ''tect'' @ [233]) False [] [])))))))))"

subsection \<open>Sensitive files\<close>

text \<open>The loop over \<^verbatim>\<open>forbidden_files\<close>: \<^verbatim>\<open>Path(file)\<close> accepts a string only.\<close>

fun scan_forbidden :: "'w env \<Rightarrow> json list \<Rightarrow> pystr list \<Rightarrow> (pystr list, 'w) operation" where
  "scan_forbidden E [] found = ret found"
| "scan_forbidden E (JStr file # files) found =
     seq (observe (path_exists E file)) (\<lambda>present.
     if present then
       seq (run_command E (words [''git'', ''ls-files'', ''--error-unmatch''] @ [JStr file]) 60)
           (\<lambda>(returncode, out, err).
       if returncode = 0 then scan_forbidden E files (found @ [file @ py '' (suivi par git - DANGER!)''])
       else scan_forbidden E files (found @ [file @ py '' (non suivi - OK)'']))
     else scan_forbidden E files found)"
| "scan_forbidden E (j # files) found = (\<lambda>st. Inl TypeError)"

definition required_ignores :: "pystr list" where
  "required_ignores = map py [''.env'', ''db.sqlite3'', ''__pycache__/'', ''*.pyc'']"

definition check_files :: "'w env \<Rightarrow> (CheckResult, 'w) operation" where
  "check_files E =
     seq (from_config (\<lambda>c. check_param c (py ''files'') (py ''enabled''))) (\<lambda>enabled.
     if \<not> truthy enabled then
       ret (disabled_result (py ''Fichiers'') (py ''D'' @ [233] @ py ''sactiv'' @ [233]))
     else
     seq (from_config (\<lambda>c. and_then (check_param c (py ''files'') (py ''forbidden_files'')) iterate))
         (\<lambda>forbidden_files.
     seq (scan_forbidden E forbidden_files []) (\<lambda>found.
     let dangerous_found = filter (\<lambda>f. contains f (py ''DANGER'')) found in
     if dangerous_found \<noteq> [] then
       ret (mk_result (py ''Fichiers'') False (py ''Fichiers sensibles commit'' @ [233] @ py ''s!'') False []
              dangerous_found)
     else
     seq (from_config (\<lambda>c. check_option c (py ''files'') (py ''check_gitignore'') (JBool True))) (\<lambda>check_gitignore.
     if truthy check_gitignore then
       seq (observe (path_exists E (py ''.gitignore''))) (\<lambda>present.
       if \<not> present then
         ret (mk_result (py ''Fichiers'') False (py ''Fichier .gitignore manquant'') False [] [])
       else
       seq (\<lambda>st. lift (read_text E (py ''.gitignore'') (world st)) st) (\<lambda>gitignore_content.
       let missing = filter (\<lambda>item. \<not> contains gitignore_content item) required_ignores in
       if missing \<noteq> [] then
         ret (mk_result (py ''Fichiers'') False (py ''.gitignore incomplet'') False []
                [py ''Manquant: '' @ join (py '', '') missing])
       else
         ret (mk_result (py ''Fichiers'') True (py ''Aucun fichier sensible d'' @ [233] @ py ''tect'' @ [233])
                False [] [])))
     else
       ret (mk_result (py ''Fichiers'') True (py ''Aucun fichier sensible d'' @ [233] @ py ''tect'' @ [233])
              False [] [])))))"

subsection \<open>Git\<close>

definition default_types :: json where
  "default_types = JList (map (\<lambda>t. JStr (py t))
     [''feat'', ''fix'', ''docs'', ''style'', ''refactor'', ''test'', ''chore''])"

text \<open>The pattern \<^verbatim>\<open>^(types)(\(.+\))?: .+\<close> built from the joined types.\<close>

definition commit_pattern :: "pystr \<Rightarrow> pystr" where
  "commit_pattern joined = py ''^('' @ joined @ py '')('' @ [92] @ py ''(.+'' @ [92] @ py ''))?: .+''"

definition convention_warning :: "pystr \<Rightarrow> pystr \<Rightarrow> pystr" where
  "convention_warning last_message types =
     py ''Le dernier commit ne suit pas la convention: '' @ [39] @ take 50 last_message @ py ''...''
     @ [39, 10] @ py ''Format attendu: type: description'' @ [10]
     @ py ''Types autoris'' @ [233] @ py ''s: '' @ types"

definition check_git :: "'w env \<Rightarrow> (CheckResult, 'w) operation" where
  "check_git E =
     seq (from_config (\<lambda>c. check_param c (py ''git'') (py ''enabled''))) (\<lambda>enabled.
     if \<not> truthy enabled then
       ret (disabled_result (py ''Git'') (py ''D'' @ [233] @ py ''sactiv'' @ [233]))
     else
     seq (from_config (\<lambda>c. check_option c (py ''git'') (py ''check_staged_files'') (JBool True))) (\<lambda>check_staged.
     seq (if truthy check_staged then
            seq (run_command E (words [''git'', ''diff'', ''--cached'', ''--name-only'']) 60)
                (\<lambda>(returncode, out, err).
            let staged_files = (if out \<noteq> [] then split_nl (strip out) else []) in
            ret (staged_files = [] \<or> staged_files = [[]]))
          else ret False) (\<lambda>nothing_staged.
     if nothing_staged then
       ret (mk_result (py ''Git'') False (py ''Aucun fichier staged'') False []
              [py ''Utilisez 'git add' avant de committer''])
     else
     seq (from_config (\<lambda>c. check_option c (py ''git'') (py ''conventional_commits'') (JBool True))) (\<lambda>conventional.
     seq (if truthy conventional then
            seq (run_command E (words [''git'', ''log'', ''-1'', ''--pretty=%B'']) 60)
                (\<lambda>(returncode, out, err).
            let last_message = (if out \<noteq> [] then strip out else []) in
            seq (from_config (\<lambda>c. check_option c (py ''git'') (py ''allowed_types'') default_types)) (\<lambda>allowed_types.
            seq (lift (join_json (py ''|'') allowed_types)) (\<lambda>joined.
            seq (if last_message \<noteq> [] then lift (re_match_ic E (commit_pattern joined) last_message)
                 else ret True) (\<lambda>matches.
            if last_message \<noteq> [] \<and> \<not> matches then
              seq (lift (join_json (py '', '') allowed_types)) (\<lambda>types.
              (\<lambda>st. Inr (True, st\<lparr>warnings := warnings st @ [convention_warning last_message types]\<rparr>)))
            else ret True))))
          else ret True) (\<lambda>checked.
     ret (mk_result (py ''Git'') True (py ''Git OK'') False [] []))))))"

section \<open>The orchestrator\<close>

text \<open>
  What \<^verbatim>\<open>run_all_checks\<close> does is observed through a trace of its own steps: each call of
  a check function, with the position of the check in the table, its name there and the
  result that came back; each answer of the confirmation; each call of a fix function with
  what it returned; and the printing of the final summary. The trace is not a field of the
  checker: it is threaded beside it, so no check function can alter it.
\<close>

datatype event =
    Evaluated nat pystr CheckResult
  | Confirmation bool
  | Fixer pystr bool
  | Summary bool

type_synonym 'w check = "pystr \<times> (CheckResult, 'w) operation \<times> (bool, 'w) operation option"

text \<open>The table \<^verbatim>\<open>checks\<close> of \<^verbatim>\<open>run_all_checks\<close>: name, check function, fix function.\<close>

definition checks :: "'w env \<Rightarrow> 'w check list" where
  "checks E =
     [(py ''Linter'', check_linter E, Some (fix_linter E)),
      (py ''Tests'', check_tests E, None),
      (py ''Django'', check_django E, None),
      (py ''S'' @ [233] @ py ''curit'' @ [233], check_security E, None),
      (py ''Fichiers'', check_files E, None),
      (py ''Git'', check_git E, None)]"

text \<open>How one turn of the loop ends: the loop goes on to the next check with the current
  value of \<^verbatim>\<open>all_passed\<close>, or \<^verbatim>\<open>run_all_checks\<close> returns.\<close>

datatype flow = Proceed bool | Return bool

text \<open>The end of a turn whose check failed and was not repaired (the statements under
  the comment "Mode strict"): in strict mode the summary is printed and the run returns
  \<^verbatim>\<open>False\<close>; otherwise the failure is added to \<^verbatim>\<open>errors\<close>.\<close>

definition blocked :: "pystr \<Rightarrow> CheckResult \<Rightarrow> event list \<Rightarrow> (flow \<times> event list, 'w) operation" where
  "blocked nm result tr st =
     (if truthy (strict_mode st) then Inr ((Return False, tr @ [Summary False]), st)
      else Inr ((Proceed False, tr),
                st\<lparr>errors := errors st @ [nm @ py '': '' @ message result]\<rparr>))"

text \<open>The body of the loop for the check at position \<open>i\<close>.\<close>

definition run_check ::
  "'w env \<Rightarrow> nat \<Rightarrow> 'w check \<Rightarrow> bool \<Rightarrow> event list \<Rightarrow> (flow \<times> event list, 'w) operation" where
  "run_check E i chk all_passed tr =
     (case chk of (nm, check_func, fix_func) \<Rightarrow>
      seq check_func (\<lambda>result.
      let tr1 = tr @ [Evaluated i nm result] in
      if passed result then ret (Proceed all_passed, tr1)
      else (\<lambda>st.
        (case fix_func of
           Some fix \<Rightarrow>
             if can_fix result \<and> truthy (auto_fix st) then
               seq (confirm E (py ''   Corriger automatiquement ?'')) (\<lambda>answer.
               let tr2 = tr1 @ [Confirmation (truthy answer)] in
               if truthy answer then
                 seq fix (\<lambda>fixed.
                 let tr3 = tr2 @ [Fixer nm fixed] in
                 if fixed then
                   seq check_func (\<lambda>result2.
                   let tr4 = tr3 @ [Evaluated i nm result2] in
                   if passed result2 then
                     (\<lambda>st. Inr ((Proceed all_passed, tr4),
                                st\<lparr>fixes_applied := fixes_applied st @ [nm]\<rparr>))
                   else blocked nm result2 tr4)
                 else blocked nm result tr3)
               else blocked nm result tr2) st
             else blocked nm result tr1 st
         | None \<Rightarrow> blocked nm result tr1 st))))"

text \<open>The loop \<^verbatim>\<open>for i, (name, check_func, fix_func) in enumerate(checks, 1)\<close>: it ends by
  a \<^verbatim>\<open>return\<close> inside a turn or by running out of checks.\<close>

fun run_loop ::
  "'w env \<Rightarrow> nat \<Rightarrow> 'w check list \<Rightarrow> bool \<Rightarrow> event list \<Rightarrow> (flow \<times> event list, 'w) operation" where
  "run_loop E i [] all_passed tr st = Inr ((Proceed all_passed, tr), st)"
| "run_loop E i (c # cs) all_passed tr st =
     (case run_check E i c all_passed tr st of
        Inl e \<Rightarrow> Inl e
      | Inr ((Return v, tr1), st1) \<Rightarrow> Inr ((Return v, tr1), st1)
      | Inr ((Proceed ap, tr1), st1) \<Rightarrow> run_loop E (Suc i) cs ap tr1 st1)"

text \<open>The loop over a table of checks followed by the two statements after it, which
  print the summary and return \<^verbatim>\<open>all_passed\<close>; \<^verbatim>\<open>run_all_checks\<close> is this run over the
  script's table.\<close>

definition run_checks :: "'w env \<Rightarrow> 'w check list \<Rightarrow> (bool \<times> event list, 'w) operation" where
  "run_checks E cs st =
     (case run_loop E 1 cs True [] st of
        Inl e \<Rightarrow> Inl e
      | Inr ((Return v, tr), st1) \<Rightarrow> Inr ((v, tr), st1)
      | Inr ((Proceed all_passed, tr), st1) \<Rightarrow> Inr ((all_passed, tr @ [Summary all_passed]), st1))"

definition run_all_checks :: "'w env \<Rightarrow> (bool \<times> event list, 'w) operation" where
  "run_all_checks E = run_checks E (checks E)"

section \<open>The entry point\<close>

text \<open>The parsed command line.\<close>

record arguments =
  arg_config :: pystr
  arg_fix :: bool
  arg_yes :: bool
  arg_from_hook :: bool
  arg_only :: "pystr option"
  arg_verbose :: bool

text \<open>How the process ends: its exit status, and for a run that returned, the trace and
  the checker it left.\<close>

type_synonym 'w ending = "int \<times> (event list \<times> 'w checker) option"

text \<open>
  \<^verbatim>\<open>main\<close>, after the parsing of the command line. The checker is built outside the
  \<^verbatim>\<open>try\<close>: \<^verbatim>\<open>sys.exit(1)\<close> of a file that does not decode, or any exception raised while
  building, ends the process with status 1. Inside the \<^verbatim>\<open>try\<close>, the verdict becomes status 0
  or 1, a \<^verbatim>\<open>KeyboardInterrupt\<close> status 130, any other \<^verbatim>\<open>Exception\<close> status 1.
\<close>

definition apply_arguments :: "arguments \<Rightarrow> 'w checker \<Rightarrow> 'w checker" where
  "apply_arguments a st =
     (let st1 = (if arg_fix a then st\<lparr>auto_fix := JBool True\<rparr> else st) in
      if arg_yes a \<or> arg_from_hook a
      then st1\<lparr>interactive := JBool False, auto_fix := JBool True\<rparr> else st1)"

definition main :: "'w env \<Rightarrow> arguments \<Rightarrow> 'w \<Rightarrow> 'w ending" where
  "main E a w =
     (case init E (arg_config a) w of
        Inl (SystemExit n) \<Rightarrow> (n, None)
      | Inl e \<Rightarrow> (1, None)
      | Inr checker \<Rightarrow>
          (case run_all_checks E (apply_arguments a checker) of
             Inr ((success, tr), st) \<Rightarrow> (if success then 0 else 1, Some (tr, st))
           | Inl KeyboardInterrupt \<Rightarrow> (130, None)
           | Inl (SystemExit n) \<Rightarrow> (n, None)
           | Inl e \<Rightarrow> (1, None)))"

section \<open>Reading a trace\<close>

text \<open>The evaluations of a trace, in order: position, name and result.\<close>

fun evaluations :: "event list \<Rightarrow> (nat \<times> pystr \<times> CheckResult) list" where
  "evaluations [] = []"
| "evaluations (Evaluated i n r # es) = (i, n, r) # evaluations es"
| "evaluations (e # es) = evaluations es"

text \<open>The checks that were left failing: for each position, the last evaluation made there
  counts, and it is kept when its result did not pass. (The evaluations of one position are
  consecutive, so a change of position closes a turn.)\<close>

fun left_failing :: "(nat \<times> pystr \<times> CheckResult) list \<Rightarrow> (pystr \<times> CheckResult) list" where
  "left_failing [] = []"
| "left_failing [(i, n, r)] = (if passed r then [] else [(n, r)])"
| "left_failing ((i, n, r) # (j, m, q) # es) =
     (if i = j then left_failing ((j, m, q) # es)
      else (if passed r then [] else [(n, r)]) @ left_failing ((j, m, q) # es))"

text \<open>The positions at which some check was evaluated, without repetition of a position
  evaluated twice in a row.\<close>

fun positions :: "(nat \<times> pystr \<times> CheckResult) list \<Rightarrow> nat list" where
  "positions [] = []"
| "positions [(i, n, r)] = [i]"
| "positions ((i, n, r) # (j, m, q) # es) =
     (if i = j then positions ((j, m, q) # es) else i # positions ((j, m, q) # es))"

text \<open>The fix function registered for a name in a table of checks.\<close>

definition fixer_of :: "'w check list \<Rightarrow> pystr \<Rightarrow> (bool, 'w) operation option" where
  "fixer_of cs nm = (case map_of (map (\<lambda>(n, c, f). (n, f)) cs) nm of Some (Some f) \<Rightarrow> Some f | _ \<Rightarrow> None)"

text \<open>The line that a failure adds to \<^verbatim>\<open>errors\<close>: the name of the check in the table, a
  colon and the message of its result.\<close>

definition entry :: "pystr \<times> CheckResult \<Rightarrow> pystr" where
  "entry f = fst f @ py '': '' @ message (snd f)"

section \<open>Notions used in the properties\<close>


text \<open>Every value an operation returns satisfies the predicate.\<close>

definition yields :: "('a \<Rightarrow> bool) \<Rightarrow> ('a, 'w) operation \<Rightarrow> bool" where
  "yields P m \<longleftrightarrow> (\<forall>st x st'. m st = Inr (x, st') \<longrightarrow> P x)"

text \<open>An operation leaves the fields \<^verbatim>\<open>errors\<close> and \<^verbatim>\<open>strict_mode\<close> of the checker as it
  found them, whenever it returns.\<close>

definition frame :: "('a, 'w) operation \<Rightarrow> bool" where
  "frame m \<longleftrightarrow>
     (\<forall>st x st'. m st = Inr (x, st') \<longrightarrow> errors st' = errors st \<and> strict_mode st' = strict_mode st)"

section \<open>Scenarios\<close>

text \<open>
  A small concrete environment for the scenarios below: the world has no state of its
  own; each command is answered by a fixed function of its words, the terminal by one
  fixed event, the configuration file by one fixed outcome and the matching of a commit
  message by one fixed answer. No file exists, and lower-casing covers ASCII.
\<close>

definition ascii_lower :: "pystr \<Rightarrow> pystr" where
  "ascii_lower s = map (\<lambda>c. if 65 \<le> c \<and> c \<le> 90 then c + 32 else c) s"

definition scripted :: "(json list \<Rightarrow> proc) \<Rightarrow> keyboard \<Rightarrow> load \<Rightarrow> bool \<Rightarrow> unit env" where
  "scripted answer typed file matches =
     \<lparr>subprocess_run = (\<lambda>command timeout w. (answer command, w)),
      input_line = (\<lambda>prompt w. (typed, w)),
      open_json = (\<lambda>path w. file),
      path_exists = (\<lambda>path w. False),
      read_text = (\<lambda>path w. Inl (OtherException [])),
      rglob_py = (\<lambda>w. []),
      os_name_nt = False,
      json_loads = (\<lambda>s. Inl (OtherException [])),
      re_search_ic = (\<lambda>pattern s. False),
      re_match_ic = (\<lambda>pattern s. Inr matches),
      lower = ascii_lower,
      repr = (\<lambda>j. [])\<rparr>"

definition command_line :: "pystr option \<Rightarrow> bool \<Rightarrow> arguments" where
  "command_line only yes =
     \<lparr>arg_config = py ''scripts/pre-commit-config.json'', arg_fix = False, arg_yes = yes,
      arg_from_hook = False, arg_only = only, arg_verbose = False\<rparr>"

text \<open>A configuration in which only the linter is enabled.\<close>

definition linter_only :: json where
  "linter_only = JObj
     [(py ''checks'', JObj
        [(py ''linter'', JObj [(py ''enabled'', JBool True), (py ''exclude'', JList [JStr (py ''env'')]),
                             (py ''max_line_length'', JInt 100)]),
         (py ''tests'', JObj [(py ''enabled'', JBool False)]),
         (py ''django'', JObj [(py ''enabled'', JBool False)]),
         (py ''security'', JObj [(py ''enabled'', JBool False)]),
         (py ''files'', JObj [(py ''enabled'', JBool False)]),
         (py ''git'', JObj [(py ''enabled'', JBool False)])])]"

text \<open>Flake8 is installed and reports one style error; nothing else is installed and
  every other command fails.\<close>

definition flake8_fails :: "json list \<Rightarrow> proc" where
  "flake8_fails command =
     (if command = words [''which'', ''flake8''] then Completed 0 (py ''/usr/bin/flake8'') []
      else if take 1 command = words [''flake8''] then Completed 1 (py ''a.py:1:80: E501 line too long'') []
      else Completed 1 [] [])"

text \<open>The same tree with Black installed as well, where running Black fails.\<close>

definition black_fails :: "json list \<Rightarrow> proc" where
  "black_fails command =
     (if command = words [''which'', ''black''] then Completed 0 (py ''/usr/bin/black'') []
      else if take 1 command = words [''black''] then Completed 123 [] (py ''error: cannot format a.py'')
      else flake8_fails command)"

text \<open>The checker as \<^verbatim>\<open>__init__\<close> builds it from a configuration that sets none of the
  three modes.\<close>

definition fresh :: "json \<Rightarrow> unit checker" where
  "fresh cfg =
     \<lparr>config = cfg, errors = [], warnings = [], fixes_applied = [],
      strict_mode = JBool True, auto_fix = JBool True, interactive = JBool True,
      world = (), actions = []\<rparr>"

text \<open>A configuration file that has an entry for the tests and none for the linter.\<close>

definition no_linter_entry :: json where
  "no_linter_entry = JObj [(py ''checks'', JObj [(py ''tests'', JObj [(py ''enabled'', JBool True)])])]"

text \<open>The keys under which the six checks of the table read their entries, in the order
  of the table.\<close>

definition config_keys :: "pystr list" where
  "config_keys = map py [''linter'', ''tests'', ''django'', ''security'', ''files'', ''git'']"

text \<open>A configuration in which the linter and the tests are enabled, with the given
  strict mode.\<close>

definition linter_and_tests :: "bool \<Rightarrow> json" where
  "linter_and_tests strict = JObj
     [(py ''strict_mode'', JBool strict),
      (py ''checks'', JObj
        [(py ''linter'', JObj [(py ''enabled'', JBool True), (py ''exclude'', JList [JStr (py ''env'')]),
                             (py ''max_line_length'', JInt 100)]),
         (py ''tests'', JObj [(py ''enabled'', JBool True)]),
         (py ''django'', JObj [(py ''enabled'', JBool False)]),
         (py ''security'', JObj [(py ''enabled'', JBool False)]),
         (py ''files'', JObj [(py ''enabled'', JBool False)]),
         (py ''git'', JObj [(py ''enabled'', JBool False)])])]"

text \<open>
  An environment whose world remembers whether the tree has been formatted: Flake8 and
  Black are installed, Flake8 reports a style error until Black has run, Black succeeds,
  the tests pass, and the operator answers \<^verbatim>\<open>o\<close> to every question.
\<close>

definition repairing :: "bool env" where
  "repairing =
     \<lparr>subprocess_run = (\<lambda>command timeout formatted.
        if take 1 command = words [''flake8''] then
          (if formatted then Completed 0 [] [] else Completed 1 (py ''a.py:1:80: E501 line too long'') [],
           formatted)
        else if take 1 command = words [''black''] then (Completed 0 [] [], True)
        else if command = words [''which'', ''flake8''] \<or> command = words [''which'', ''black'']
                \<or> take 1 command = words [''python'']
          then (Completed 0 [] [], formatted)
        else (Completed 1 [] [], formatted)),
      input_line = (\<lambda>prompt w. (Line (py ''o''), w)),
      open_json = (\<lambda>path w. Loaded (linter_and_tests True)),
      path_exists = (\<lambda>path w. False),
      read_text = (\<lambda>path w. Inl (OtherException [])),
      rglob_py = (\<lambda>w. []),
      os_name_nt = False,
      json_loads = (\<lambda>s. Inl (OtherException [])),
      re_search_ic = (\<lambda>pattern s. False),
      re_match_ic = (\<lambda>pattern s. Inr True),
      lower = ascii_lower,
      repr = (\<lambda>j. [])\<rparr>"

text \<open>The checker built from that configuration in the unformatted tree.\<close>

definition unformatted :: "bool checker" where
  "unformatted =
     \<lparr>config = linter_and_tests True, errors = [], warnings = [], fixes_applied = [],
      strict_mode = JBool True, auto_fix = JBool True, interactive = JBool True,
      world = False, actions = []\<rparr>"

text \<open>A configuration in which only the Django check is enabled, with the given
  \<^verbatim>\<open>auto_fix\<close> and the given \<^verbatim>\<open>auto_migrate\<close> of that check.\<close>

definition django_project :: "bool \<Rightarrow> bool \<Rightarrow> json" where
  "django_project fix migrate = JObj
     [(py ''auto_fix'', JBool fix),
      (py ''checks'', JObj
        [(py ''linter'', JObj [(py ''enabled'', JBool False)]),
         (py ''tests'', JObj [(py ''enabled'', JBool False)]),
         (py ''django'', JObj [(py ''enabled'', JBool True), (py ''auto_migrate'', JBool migrate)]),
         (py ''security'', JObj [(py ''enabled'', JBool False)]),
         (py ''files'', JObj [(py ''enabled'', JBool False)]),
         (py ''git'', JObj [(py ''enabled'', JBool False)])])]"

text \<open>The configuration check of Django passes, the dry run reports missing migrations,
  and creating them succeeds; every other command fails.\<close>

definition migrations_missing :: "json list \<Rightarrow> proc" where
  "migrations_missing command =
     (if command = words [''python'', ''manage.py'', ''check'', ''--verbosity=1'']
         \<or> command = words [''python'', ''manage.py'', ''makemigrations'']
      then Completed 0 [] [] else Completed 1 [] [])"

text \<open>A configuration in which only the Git check is enabled, with the allow-list
  \<^verbatim>\<open>feat\<close>, \<^verbatim>\<open>fix\<close>, \<^verbatim>\<open>docs\<close> and the given setting of \<^verbatim>\<open>conventional_commits\<close>.\<close>

definition git_only :: "bool \<Rightarrow> json" where
  "git_only conventional = JObj
     [(py ''checks'', JObj
        [(py ''linter'', JObj [(py ''enabled'', JBool False)]),
         (py ''tests'', JObj [(py ''enabled'', JBool False)]),
         (py ''django'', JObj [(py ''enabled'', JBool False)]),
         (py ''security'', JObj [(py ''enabled'', JBool False)]),
         (py ''files'', JObj [(py ''enabled'', JBool False)]),
         (py ''git'', JObj [(py ''enabled'', JBool True),
                          (py ''conventional_commits'', JBool conventional),
                          (py ''allowed_types'', JList [JStr (py ''feat''), JStr (py ''fix''), JStr (py ''docs'')])])])]"

text \<open>A repository whose last commit has the given message, with one staged file or
  none.\<close>

definition git_history :: "bool \<Rightarrow> pystr \<Rightarrow> json list \<Rightarrow> proc" where
  "git_history staged last_message command =
     (if command = words [''git'', ''log'', ''-1'', ''--pretty=%B''] then Completed 0 (last_message @ [10]) []
      else if command = words [''git'', ''diff'', ''--cached'', ''--name-only'']
        then Completed 0 (if staged then py ''a.py'' @ [10] else []) []
      else Completed 1 [] [])"

section \<open>Properties\<close>

declare str_nat.simps [simp del]


lemma passing_turn:
  "chk st = Inr (r, st1) \<Longrightarrow> passed r \<Longrightarrow>
   run_check E i (nm, chk, fix) ap tr st = Inr ((Proceed ap, tr @ [Evaluated i nm r]), st1)"
  by (simp add: run_check_def seq_def ret_def)

lemma passed_disabled: "passed (disabled_result n m)"
  by (simp add: disabled_result_def mk_result_def)

lemmas scenario_defs =
  scripted_def fresh_def linter_only_def no_linter_entry_def command_line_def config_keys_def
  flake8_fails_def black_fails_def ascii_lower_def linter_and_tests_def repairing_def unformatted_def
  django_project_def migrations_missing_def

lemmas run_defs =
  main_def init_def load_config_def apply_arguments_def run_all_checks_def run_checks_def checks_def
  run_check_def blocked_def check_linter_def fix_linter_def check_tests_def check_django_def
  check_security_def check_files_def check_git_def check_tool_installed_def install_tool_def
  run_command_def confirm_def seq_def ret_def from_config_def lift_def observe_def words_def
  mk_result_def disabled_result_def join_json_def strip_def isspace_def startswith_def Let_def
  prompt_text_def str_int_def

lemma str_nat_digit: "n < 10 \<Longrightarrow> str_nat n = [48 + n]"
  by (simp add: str_nat.simps [of n])

lemma str_nat_100: "str_nat 100 = py ''100''"
  by (simp add: str_nat.simps [of 100] str_nat.simps [of 10] str_nat_digit py_def)

lemmas lookup_defs =
  check_param_def check_entry_def check_option_def and_then_def py_def

subsection \<open>Disabled checks\<close>

text \<open>
  Claim C10. A check whose entry in the configuration has a false \<^verbatim>\<open>enabled\<close> returns a
  passing result at once: the checker is left exactly as it was (no command is run, nothing
  is added to \<open>errors\<close>), and the turn of the loop lets the run proceed with \<^verbatim>\<open>all_passed\<close>
  unchanged. The statement covers every value of \<^verbatim>\<open>enabled\<close> that counts as false.
\<close>

theorem disabled_check_passes:
  assumes "(key, nm, chk, fix) \<in> set (zip config_keys (checks E))"
      and "check_param (config st) key (py ''enabled'') = Inr en"
      and "\<not> truthy en"
  shows "\<exists>m. chk st = Inr (disabled_result nm m, st) \<and> passed (disabled_result nm m)
           \<and> run_check E i (nm, chk, fix) ap tr st
               = Inr ((Proceed ap, tr @ [Evaluated i nm (disabled_result nm m)]), st)"
proof -
  have "\<exists>m. chk st = Inr (disabled_result nm m, st)"
    using assms
    by (auto simp: config_keys_def checks_def check_linter_def check_tests_def check_django_def
          check_security_def check_files_def check_git_def seq_def from_config_def ret_def)
  then obtain m where m: "chk st = Inr (disabled_result nm m, st)" ..
  show ?thesis
    by (rule exI [of _ m]) (simp add: m passing_turn passed_disabled)
qed

theorem disabled_check_passes_witness:
  "\<exists>m. check_tests (scripted flake8_fails EndOfInput (Loaded linter_only) True) (fresh linter_only)
         = Inr (disabled_result (py ''Tests'') m, fresh linter_only)
       \<and> passed (disabled_result (py ''Tests'') m)
       \<and> run_check (scripted flake8_fails EndOfInput (Loaded linter_only) True) 2
           (py ''Tests'', check_tests (scripted flake8_fails EndOfInput (Loaded linter_only) True), None)
           True [] (fresh linter_only)
         = Inr ((Proceed True, [] @ [Evaluated 2 (py ''Tests'') (disabled_result (py ''Tests'') m)]),
                fresh linter_only)"
proof -
  have a: "(py ''tests'', py ''Tests'',
            check_tests (scripted flake8_fails EndOfInput (Loaded linter_only) True), None)
           \<in> set (zip config_keys (checks (scripted flake8_fails EndOfInput (Loaded linter_only) True)))"
    by (simp add: config_keys_def checks_def)
  have b: "check_param (config (fresh linter_only)) (py ''tests'') (py ''enabled'') = Inr (JBool False)"
    by (simp add: fresh_def linter_only_def lookup_defs)
  have c: "\<not> truthy (JBool False)" by simp
  show ?thesis
    using disabled_check_passes [OF a b c, of 2 True "[]"] .
qed

subsection \<open>Timeouts of external commands\<close>






























subsection \<open>Loading the configuration\<close>

lemma default_enabled:
  "key \<in> set config_keys \<Longrightarrow> check_param default_config key (py ''enabled'') = Inr (JBool True)"
  by (auto simp: config_keys_def default_config_def lookup_defs)

lemma absent_entry_raises:
  assumes "(key, nm, chk, fix) \<in> set (zip config_keys (checks E))"
      and "check_entry (config st) key = Inl e"
  shows "chk st = Inl e"
  using assms
  by (auto simp: config_keys_def checks_def check_linter_def check_tests_def check_django_def
        check_security_def check_files_def check_git_def seq_def from_config_def check_param_def
        and_then_def)

lemma init_without_file:
  "open_json E path w = FileNotFound \<Longrightarrow> init E path w =
      Inr \<lparr>config = default_config, errors = [], warnings = [], fixes_applied = [],
            strict_mode = JBool True, auto_fix = JBool True, interactive = JBool True,
            world = w, actions = []\<rparr>"
  by (simp add: init_def load_config_def and_then_def default_config_def py_def)

text \<open>
  Claim C6, as the script has it. A missing configuration file gives the built-in
  defaults: every check enabled, strict mode on. A file that is present is taken as
  decoded, with no default merged into it, and a check whose entry is absent from it raises
  the error of the failed lookup instead of returning a result.
\<close>

theorem configuration_defaults:
  "(open_json E path w = FileNotFound \<longrightarrow>
      (\<exists>st. init E path w = Inr st \<and> config st = default_config
         \<and> strict_mode st = JBool True \<and> auto_fix st = JBool True \<and> interactive st = JBool True
         \<and> (\<forall>key \<in> set config_keys. check_param (config st) key (py ''enabled'') = Inr (JBool True))))
   \<and> (open_json E path w = Loaded cfg \<longrightarrow> load_config E path w = Inr cfg)
   \<and> ((key, nm, chk, fix) \<in> set (zip config_keys (checks E))
        \<longrightarrow> check_entry (config st) key = Inl e \<longrightarrow> chk st = Inl e)"
  using init_without_file [of E path w] default_enabled
    absent_entry_raises [of key nm chk "fix" E st e]
  by (auto simp: load_config_def)

theorem configuration_defaults_witness:
  "(\<exists>st. init (scripted flake8_fails EndOfInput FileNotFound True) (py ''scripts/pre-commit-config.json'') ()
           = Inr st \<and> config st = default_config \<and> strict_mode st = JBool True
        \<and> check_param (config st) (py ''linter'') (py ''enabled'') = Inr (JBool True))
   \<and> load_config (scripted flake8_fails EndOfInput (Loaded no_linter_entry) True)
        (py ''scripts/pre-commit-config.json'') () = Inr no_linter_entry
   \<and> check_linter (scripted flake8_fails EndOfInput (Loaded no_linter_entry) True) (fresh no_linter_entry)
        = Inl (KeyError (py ''linter''))"
proof -
  let ?E = "scripted flake8_fails EndOfInput FileNotFound True"
  let ?F = "scripted flake8_fails EndOfInput (Loaded no_linter_entry) True"
  have m: "(py ''linter'', py ''Linter'', check_linter ?F, Some (fix_linter ?F))
             \<in> set (zip config_keys (checks ?F))"
    by (simp add: config_keys_def checks_def)
  have k: "py ''linter'' \<in> set config_keys"
    by (simp add: config_keys_def)
  have a: "check_entry (config (fresh no_linter_entry)) (py ''linter'') = Inl (KeyError (py ''linter''))"
    by (simp add: fresh_def no_linter_entry_def lookup_defs)
  have f: "open_json ?E (py ''scripts/pre-commit-config.json'') () = FileNotFound"
    by (simp add: scripted_def)
  have l: "open_json ?F (py ''scripts/pre-commit-config.json'') () = Loaded no_linter_entry"
    by (simp add: scripted_def)
  from configuration_defaults
         [of ?E "py ''scripts/pre-commit-config.json''" "()" no_linter_entry
             "py ''linter''" "py ''Linter''" "check_linter ?E" "Some (fix_linter ?E)"
             "fresh no_linter_entry" "KeyError (py ''linter'')"]
       configuration_defaults
         [of ?F "py ''scripts/pre-commit-config.json''" "()" no_linter_entry
             "py ''linter''" "py ''Linter''" "check_linter ?F" "Some (fix_linter ?F)"
             "fresh no_linter_entry" "KeyError (py ''linter'')"]
  show ?thesis
    using m k a f l by blast
qed

text \<open>The claim as the specification words it fails: with a configuration file that
  merely omits the linter's entry, evaluating the linter raises.\<close>

theorem omitted_entry_counterexample:
  "init (scripted flake8_fails EndOfInput (Loaded no_linter_entry) True)
       (py ''scripts/pre-commit-config.json'') () = Inr (fresh no_linter_entry)
   \<and> check_linter (scripted flake8_fails EndOfInput (Loaded no_linter_entry) True) (fresh no_linter_entry)
       = Inl (KeyError (py ''linter''))"
  by (simp add: init_def load_config_def scripted_def fresh_def no_linter_entry_def check_linter_def
        seq_def from_config_def lookup_defs)

subsection \<open>The loop\<close>


lemma blocked_collect:
  "\<not> truthy (strict_mode st) \<Longrightarrow>
   blocked nm r tr st = Inr ((Proceed False, tr), st\<lparr>errors := errors st @ [nm @ py '': '' @ message r]\<rparr>)"
  by (simp add: blocked_def)

lemma evaluations_append: "evaluations (xs @ ys) = evaluations xs @ evaluations ys"
  by (induction xs rule: evaluations.induct) simp_all

lemma run_loop_append:
  "run_loop E i (xs @ ys) ap tr st =
     (case run_loop E i xs ap tr st of
        Inl e \<Rightarrow> Inl e
      | Inr ((Return v, tr1), st1) \<Rightarrow> Inr ((Return v, tr1), st1)
      | Inr ((Proceed a, tr1), st1) \<Rightarrow> run_loop E (i + length xs) ys a tr1 st1)"
proof (induction xs arbitrary: i ap tr st)
  case Nil
  then show ?case by simp
next
  case (Cons c cs)
  show ?case
    by (simp add: Cons split: sum.splits prod.splits flow.splits)
qed

text \<open>What one turn adds to the trace.\<close>

lemma turn_trace:
  assumes "run_check E i (nm, chk, fo) ap tr st = Inr ((fl, tr'), st')"
  shows "\<exists>evs r. tr' = tr @ evs
           \<and> (evaluations evs = [(i, nm, r)] \<or> (\<exists>r0. evaluations evs = [(i, nm, r0), (i, nm, r)]))
           \<and> (passed r \<longrightarrow> fl = Proceed ap)
           \<and> (\<not> passed r \<longrightarrow> truthy (strict_mode st') \<longrightarrow> fl = Return False \<and> last tr' = Summary False)
           \<and> (\<not> passed r \<longrightarrow> \<not> truthy (strict_mode st') \<longrightarrow> fl = Proceed False)"
  using assms
  by (auto simp: run_check_def seq_def ret_def blocked_def Let_def
           split: sum.splits prod.splits option.splits if_splits)


lemma turn_positions:
  assumes "run_check E i (nm, chk, fo) ap tr st = Inr ((fl, tr'), st')"
  shows "\<exists>evs. tr' = tr @ evs \<and> (\<forall>x \<in> set (evaluations evs). fst x = i)"
proof -
  from turn_trace [OF assms] obtain evs r where
    "tr' = tr @ evs"
    "evaluations evs = [(i, nm, r)] \<or> (\<exists>r0. evaluations evs = [(i, nm, r0), (i, nm, r)])"
    by blast
  then show ?thesis
    by (intro exI [of _ evs]) auto
qed

lemma run_loop_positions:
  "run_loop E i cs ap tr st = Inr ((fl, tr'), st') \<Longrightarrow>
   \<exists>evs. tr' = tr @ evs \<and> (\<forall>x \<in> set (evaluations evs). i \<le> fst x \<and> fst x < i + length cs)"
proof (induction cs arbitrary: i ap tr st)
  case Nil
  then show ?case by simp
next
  case (Cons c cs)
  obtain nm chk fo where c: "c = (nm, chk, fo)" by (cases c)
  from Cons.prems obtain fl1 tr1 st1 where
    t: "run_check E i c ap tr st = Inr ((fl1, tr1), st1)"
    by (auto split: sum.splits)
  from turn_positions [OF t [unfolded c]] obtain evs where
    e: "tr1 = tr @ evs" "\<forall>x \<in> set (evaluations evs). fst x = i"
    by auto
  show ?case
  proof (cases fl1)
    case (Return v)
    with Cons.prems t have "tr' = tr1" by simp
    with e show ?thesis
      by (intro exI [of _ evs]) auto
  next
    case (Proceed a)
    with Cons.prems t have "run_loop E (Suc i) cs a tr1 st1 = Inr ((fl, tr'), st')" by simp
    from Cons.IH [OF this] obtain evs2 where
      f: "tr' = tr1 @ evs2"
         "\<forall>x \<in> set (evaluations evs2). Suc i \<le> fst x \<and> fst x < Suc i + length cs"
      by auto
    show ?thesis
    proof (intro exI [of _ "evs @ evs2"] conjI ballI)
      show "tr' = tr @ evs @ evs2" using e(1) f(1) by simp
    next
      fix x assume "x \<in> set (evaluations (evs @ evs2))"
      then have "x \<in> set (evaluations evs) \<or> x \<in> set (evaluations evs2)"
        by (auto simp: evaluations_append)
      then show "i \<le> fst x" using e(2) f(2) by auto
    next
      fix x assume "x \<in> set (evaluations (evs @ evs2))"
      then have "x \<in> set (evaluations evs) \<or> x \<in> set (evaluations evs2)"
        by (auto simp: evaluations_append)
      then show "fst x < i + length (c # cs)" using e(2) f(2) by auto
    qed
  qed
qed

lemma main_exit:
  "init E (arg_config a) w = Inr c \<Longrightarrow> run_all_checks E (apply_arguments a c) = Inr ((v, t), s) \<Longrightarrow>
   main E a w = (if v then 0 else 1, Some (t, s))"
  by (simp add: main_def)

text \<open>
  Claim C2. Take any table of checks and a run in which the checks before position \<open>i\<close> let
  the loop proceed. If the last evaluation made in the turn of check \<open>i\<close> did not pass (the
  check failed and was not repaired) and strict mode is on, the run returns \<^verbatim>\<open>False\<close> with
  the trace and the checker exactly as that turn left them, whatever checks follow in the
  table: none of them is evaluated. The trace ends with the summary of a failure, its last
  evaluation is that of check \<open>i\<close> under its name, and the process ends with status 1.
\<close>

theorem strict_mode_stops_at_first_failure:
  assumes before: "run_loop E 1 pre True [] st = Inr ((Proceed ap, tr1), st1)"
      and turn: "run_check E (Suc (length pre)) (nm, chk, fo) ap tr1 st1 = Inr ((fl, tr2), st2)"
      and failed: "\<not> passed (snd (snd (last (evaluations tr2))))"
      and strict: "truthy (strict_mode st2)"
  shows "run_checks E (pre @ (nm, chk, fo) # rest) st = Inr ((False, tr2), st2)
         \<and> last tr2 = Summary False
         \<and> fst (last (evaluations tr2)) = Suc (length pre)
         \<and> fst (snd (last (evaluations tr2))) = nm
         \<and> (\<forall>x \<in> set (evaluations tr2). fst x \<le> Suc (length pre))
         \<and> (init E (arg_config a) w = Inr c \<longrightarrow> apply_arguments a c = st
              \<longrightarrow> pre @ (nm, chk, fo) # rest = checks E \<longrightarrow> fst (main E a w) = 1)"
proof -
  from turn_trace [OF turn] obtain evs r where
    e: "tr2 = tr1 @ evs"
       "evaluations evs = [(Suc (length pre), nm, r)]
          \<or> (\<exists>r0. evaluations evs = [(Suc (length pre), nm, r0), (Suc (length pre), nm, r)])"
       "\<not> passed r \<longrightarrow> truthy (strict_mode st2) \<longrightarrow> fl = Return False \<and> last tr2 = Summary False"
    by blast
  have l: "last (evaluations tr2) = (Suc (length pre), nm, r)"
    using e(1,2) by (auto simp: evaluations_append)
  with failed strict e(3) have fl: "fl = Return False" and s: "last tr2 = Summary False"
    by auto
  have run: "run_checks E (pre @ (nm, chk, fo) # rest) st = Inr ((False, tr2), st2)"
    using before turn fl by (simp add: run_checks_def run_loop_append)
  from run_loop_positions [OF before] have
    p: "\<forall>x \<in> set (evaluations tr1). fst x \<le> length pre"
    by auto
  have q: "\<forall>x \<in> set (evaluations tr2). fst x \<le> Suc (length pre)"
    using p e(1,2) by (auto simp: evaluations_append)
  have m: "init E (arg_config a) w = Inr c \<longrightarrow> apply_arguments a c = st
              \<longrightarrow> pre @ (nm, chk, fo) # rest = checks E \<longrightarrow> fst (main E a w) = 1"
    using run main_exit [of E a w c False tr2 st2] by (auto simp: run_all_checks_def)
  show ?thesis
    using run s l q m by simp
qed

theorem strict_mode_stops_at_first_failure_witness:
  "\<exists>tr st2. run_checks (scripted flake8_fails EndOfInput (Loaded (linter_and_tests True)) True)
               ([] @ (py ''Linter'',
                      check_linter (scripted flake8_fails EndOfInput (Loaded (linter_and_tests True)) True),
                      Some (fix_linter (scripted flake8_fails EndOfInput (Loaded (linter_and_tests True)) True)))
                   # [(py ''Tests'',
                       check_tests (scripted flake8_fails EndOfInput (Loaded (linter_and_tests True)) True),
                       None)])
               (fresh (linter_and_tests True))
             = Inr ((False, tr), st2)
           \<and> last tr = Summary False
           \<and> fst (snd (last (evaluations tr))) = py ''Linter''"
proof -
  let ?E = "scripted flake8_fails EndOfInput (Loaded (linter_and_tests True)) True"
  let ?st = "fresh (linter_and_tests True)"
  let ?turn = "run_check ?E (Suc (length ([] :: unit check list)))
                 (py ''Linter'', check_linter ?E, Some (fix_linter ?E)) True [] ?st"
  have before: "run_loop ?E 1 ([] :: unit check list) True [] ?st = Inr ((Proceed True, []), ?st)"
    by simp
  have turn: "?turn = Inr ((fst (fst (projr ?turn)), snd (fst (projr ?turn))), snd (projr ?turn))"
    by (simp add: run_defs scenario_defs lookup_defs str_nat_digit str_nat_100)
  have failed: "\<not> passed (snd (snd (last (evaluations (snd (fst (projr ?turn)))))))"
    by (simp add: run_defs scenario_defs lookup_defs str_nat_digit str_nat_100)
  have strict: "truthy (strict_mode (snd (projr ?turn)))"
    by (simp add: run_defs scenario_defs lookup_defs str_nat_digit str_nat_100)
  from strict_mode_stops_at_first_failure [OF before turn failed strict]
  show ?thesis by blast
qed

subsection \<open>Automatic correction\<close>




subsection \<open>An interrupted confirmation\<close>

text \<open>
  Claim C5, as the script has it. In interactive mode, when the prompt meets the end of
  input or an interrupt, \<^verbatim>\<open>_confirm\<close> catches it and answers \<^verbatim>\<open>False\<close>; the answer counts as
  a refusal of that one confirmation. In the loop the fix is skipped and the failing check
  is handled by the strict or non-strict policy, and a run that returns ends the process
  with status 0 or 1 according to its verdict, never 130.
\<close>

theorem interrupted_prompt_is_a_refusal:
  assumes "truthy (interactive st)"
      and "input_line E (prompt_text m) (world st) = (k, w)"
      and "k = EndOfInput \<or> k = CtrlC"
  shows "confirm E m st
           = Inr (JBool False, st\<lparr>world := w, actions := actions st @ [Asked (prompt_text m)]\<rparr>)
         \<and> (m = py ''   Corriger automatiquement ?'' \<longrightarrow> chk st0 = Inr (r, st) \<longrightarrow> \<not> passed r
              \<longrightarrow> can_fix r \<longrightarrow> truthy (auto_fix st) \<longrightarrow>
              run_check E i (nm, chk, Some fx) ap tr st0
                = blocked nm r (tr @ [Evaluated i nm r, Confirmation False])
                    (st\<lparr>world := w, actions := actions st @ [Asked (prompt_text m)]\<rparr>))
         \<and> (init E (arg_config a) w0 = Inr c \<longrightarrow>
              run_all_checks E (apply_arguments a c) = Inr ((v, t), s) \<longrightarrow>
              fst (main E a w0) = (if v then 0 else 1))"
proof -
  have c: "confirm E m st
           = Inr (JBool False, st\<lparr>world := w, actions := actions st @ [Asked (prompt_text m)]\<rparr>)"
    using assms by (auto simp: confirm_def Let_def)
  show ?thesis
    using c main_exit [of E a w0 c v t s]
    by (auto simp: run_check_def seq_def ret_def Let_def)
qed

theorem interrupted_prompt_is_a_refusal_witness:
  "confirm (scripted black_fails EndOfInput (Loaded (linter_and_tests True)) True)
       (py ''   Corriger automatiquement ?'') (fresh (linter_and_tests True))
     = Inr (JBool False,
            (fresh (linter_and_tests True))\<lparr>world := (),
               actions := actions (fresh (linter_and_tests True))
                            @ [Asked (prompt_text (py ''   Corriger automatiquement ?''))]\<rparr>)"
proof -
  let ?E = "scripted black_fails EndOfInput (Loaded (linter_and_tests True)) True"
  have a: "truthy (interactive (fresh (linter_and_tests True)))"
    by (simp add: fresh_def)
  have b: "input_line ?E (prompt_text (py ''   Corriger automatiquement ?''))
             (world (fresh (linter_and_tests True))) = (EndOfInput, ())"
    by (simp add: scripted_def)
  have c: "EndOfInput = EndOfInput \<or> EndOfInput = CtrlC" by simp
  from interrupted_prompt_is_a_refusal [OF a b c]
  show ?thesis by blast
qed

text \<open>The claim as the specification words it fails: with the end of input at the
  prompt of a fixable linter failure, the run goes on to its strict-mode end, prints the
  summary and the process ends with status 1, not 130.\<close>

theorem interrupted_prompt_counterexample:
  "case main (scripted black_fails EndOfInput (Loaded (linter_and_tests True)) True)
          (command_line None False) () of
     (status, Some (tr, st)) \<Rightarrow>
       status = 1 \<and> status \<noteq> 130
       \<and> (\<exists>r. tr = [Evaluated 1 (py ''Linter'') r, Confirmation False, Summary False])
       \<and> last (actions st) = Asked (prompt_text (py ''   Corriger automatiquement ?''))
   | (status, None) \<Rightarrow> False"
  by (simp add: run_defs scenario_defs lookup_defs str_nat_digit str_nat_100)

subsection \<open>The subset option\<close>

text \<open>
  Claim C9 does not hold of the script: \<^verbatim>\<open>--only\<close> is parsed and never read. Called with
  \<^verbatim>\<open>--only=tests\<close> on a tree where Flake8 reports a style error, the run evaluates the
  linter, which is not in the list, stops there in strict mode and ends with status 1; the
  tests, the only check named, are never evaluated.
\<close>

theorem only_is_ignored:
  "case main (scripted flake8_fails EndOfInput (Loaded (linter_and_tests True)) True)
          (command_line (Some (py ''tests'')) False) () of
     (status, Some (tr, st)) \<Rightarrow>
       status = 1 \<and> map (\<lambda>(i, n, r). n) (evaluations tr) = [py ''Linter'']
   | (status, None) \<Rightarrow> False"
  by (simp add: run_defs scenario_defs lookup_defs str_nat_digit str_nat_100)

subsection \<open>Fixable results and registered fix functions\<close>

lemma yieldsD: "yields P m \<Longrightarrow> m st = Inr (x, st') \<Longrightarrow> P x"
  by (auto simp: yields_def)

lemma yields_ret: "P x \<Longrightarrow> yields P (ret x)"
  by (simp add: yields_def ret_def)

lemma yields_seq: "(\<And>x. yields P (f x)) \<Longrightarrow> yields P (seq m f)"
  by (auto simp: yields_def seq_def split: sum.splits)

lemma yields_if: "(c \<Longrightarrow> yields P a) \<Longrightarrow> (\<not> c \<Longrightarrow> yields P b) \<Longrightarrow> yields P (if c then a else b)"
  by simp

lemma yields_prod: "(\<And>a b. yields P (f a b)) \<Longrightarrow> yields P (case p of (a, b) \<Rightarrow> f a b)"
  by (cases p) simp

lemma yields_let: "yields P (f x) \<Longrightarrow> yields P (Let x f)"
  by simp

lemma yields_option:
  "yields P a \<Longrightarrow> (\<And>x. yields P (f x)) \<Longrightarrow> yields P (case v of None \<Rightarrow> a | Some x \<Rightarrow> f x)"
  by (cases v) simp_all

lemmas yields_intros = yields_seq yields_if yields_prod yields_let yields_option yields_ret

lemma not_fixable: "\<not> can_fix (mk_result n p m False f d)" "\<not> can_fix (disabled_result n m)"
  by (simp_all add: mk_result_def disabled_result_def)

lemma tests_not_fixable: "yields (\<lambda>r. \<not> can_fix r) (check_tests E)"
  unfolding check_tests_def by (intro yields_intros not_fixable)

lemma security_not_fixable: "yields (\<lambda>r. \<not> can_fix r) (check_security E)"
  unfolding check_security_def by (intro yields_intros not_fixable)

lemma files_not_fixable: "yields (\<lambda>r. \<not> can_fix r) (check_files E)"
  unfolding check_files_def by (intro yields_intros not_fixable)

lemma git_not_fixable: "yields (\<lambda>r. \<not> can_fix r) (check_git E)"
  unfolding check_git_def by (intro yields_intros not_fixable)

lemma failing_turn_without_fixer:
  "chk st = Inr (r, st1) \<Longrightarrow> \<not> passed r \<Longrightarrow>
   run_check E i (nm, chk, None) ap tr st = blocked nm r (tr @ [Evaluated i nm r]) st1"
  by (simp add: run_check_def seq_def)

text \<open>
  Claim C1, as the script has it. For every result returned by a check of the table other
  than the Django check, \<^verbatim>\<open>can_fix\<close> true implies that a fix function is registered for
  that check: only the linter returns such a result, and \<^verbatim>\<open>fix_linter\<close> is registered for
  it. The Django check is the exception, and the orchestrator guards against it: a
  failing result of a check with no registered fix function is handled as a plain failure.
\<close>

theorem fixable_results_have_fixers:
  assumes "(nm, chk, fo) \<in> set (checks E)"
      and "chk st = Inr (r, st')"
      and "can_fix r"
      and "nm \<noteq> py ''Django''"
  shows "nm = py ''Linter'' \<and> fo = Some (fix_linter E) \<and> fixer_of (checks E) nm \<noteq> None
         \<and> (chk0 s0 = Inr (r0, s1) \<longrightarrow> \<not> passed r0 \<longrightarrow>
              run_check E i (n0, chk0, None) ap tr s0 = blocked n0 r0 (tr @ [Evaluated i n0 r0]) s1)"
proof -
  have a: "nm = py ''Linter'' \<and> fo = Some (fix_linter E)"
    using assms yieldsD [OF tests_not_fixable, of E st r st']
      yieldsD [OF security_not_fixable, of E st r st'] yieldsD [OF files_not_fixable, of E st r st']
      yieldsD [OF git_not_fixable, of E st r st']
    by (auto simp: checks_def)
  have b: "fixer_of (checks E) (py ''Linter'') \<noteq> None"
    by (simp add: fixer_of_def checks_def)
  show ?thesis
    using a b failing_turn_without_fixer [of chk0 s0 r0 s1 E i n0 ap tr] by simp
qed

theorem fixable_results_have_fixers_witness:
  "can_fix (fst (projr (check_linter (scripted black_fails EndOfInput (Loaded (linter_and_tests True)) True)
                             (fresh (linter_and_tests True)))))
   \<and> fixer_of (checks (scripted black_fails EndOfInput (Loaded (linter_and_tests True)) True))
        (py ''Linter'') \<noteq> None"
proof -
  let ?E = "scripted black_fails EndOfInput (Loaded (linter_and_tests True)) True"
  let ?c = "check_linter ?E (fresh (linter_and_tests True))"
  note ev = run_defs scenario_defs lookup_defs str_nat_digit str_nat_100
  have a: "(py ''Linter'', check_linter ?E, Some (fix_linter ?E)) \<in> set (checks ?E)"
    by (simp add: checks_def)
  have b: "?c = Inr (fst (projr ?c), snd (projr ?c))" by (simp add: ev)
  have c: "can_fix (fst (projr ?c))" by (simp add: ev)
  have d: "py ''Linter'' \<noteq> py ''Django''" by (simp add: py_def)
  from fixable_results_have_fixers [OF a b c d] c
  show ?thesis by blast
qed

text \<open>The claim as the specification words it fails for the Django check: with
  migrations missing and \<^verbatim>\<open>auto_migrate\<close> off it returns a failing result with \<^verbatim>\<open>can_fix\<close>
  true, and the table registers no fix function under its name.\<close>

theorem django_fixable_counterexample:
  "\<exists>r st'. check_django (scripted migrations_missing EndOfInput (Loaded (django_project True False)) True)
              (fresh (django_project True False))
              = Inr (r, st')
           \<and> can_fix r \<and> \<not> passed r
           \<and> fixer_of (checks (scripted migrations_missing EndOfInput (Loaded (django_project True False)) True))
               (py ''Django'') = None"
  by (simp add: run_defs scenario_defs lookup_defs django_project_def migrations_missing_def fixer_of_def)

subsection \<open>Failures collected without strict mode\<close>

text \<open>No check function, fix function or helper of the script writes \<^verbatim>\<open>errors\<close> or
  \<^verbatim>\<open>strict_mode\<close>: the loop of \<^verbatim>\<open>run_all_checks\<close> is the only writer of \<^verbatim>\<open>errors\<close>.\<close>

lemma frameD:
  "frame m \<Longrightarrow> m st = Inr (x, st') \<Longrightarrow> errors st' = errors st \<and> strict_mode st' = strict_mode st"
  by (auto simp: frame_def)

lemma frame_ret: "frame (ret x)"
  by (simp add: frame_def ret_def)

lemma frame_seq: "frame m \<Longrightarrow> (\<And>x. frame (f x)) \<Longrightarrow> frame (seq m f)"
  by (fastforce simp: frame_def seq_def split: sum.splits)

lemma frame_if: "(c \<Longrightarrow> frame a) \<Longrightarrow> (\<not> c \<Longrightarrow> frame b) \<Longrightarrow> frame (if c then a else b)"
  by simp

lemma frame_prod: "(\<And>a b. frame (f a b)) \<Longrightarrow> frame (case p of (a, b) \<Rightarrow> f a b)"
  by (cases p) simp

lemma frame_let: "frame (f x) \<Longrightarrow> frame (Let x f)"
  by simp

lemma frame_option:
  "frame a \<Longrightarrow> (\<And>x. frame (f x)) \<Longrightarrow> frame (case v of None \<Rightarrow> a | Some x \<Rightarrow> f x)"
  by (cases v) simp_all

lemma frame_from_config: "frame (from_config f)"
  by (auto simp: frame_def from_config_def split: sum.splits)

lemma frame_lift: "frame (lift r)"
  by (auto simp: frame_def lift_def split: sum.splits)

lemma frame_lift_world: "frame (\<lambda>st. lift (f (world st)) st)"
  by (auto simp: frame_def lift_def split: sum.splits)

lemma frame_observe: "frame (observe f)"
  by (simp add: frame_def observe_def)

lemma frame_run_command: "frame (run_command E c t)"
  by (auto simp: frame_def run_command_def Let_def split: prod.splits proc.splits)

lemma frame_confirm: "frame (confirm E m)"
  by (auto simp: frame_def confirm_def Let_def split: prod.splits keyboard.splits if_splits)

lemma frame_record: "frame (\<lambda>st. Inr (x, st\<lparr>fixes_applied := g st\<rparr>))"
  "frame (\<lambda>st. Inr (x, st\<lparr>warnings := h st\<rparr>))"
  by (simp_all add: frame_def)

lemma frame_raise: "frame (\<lambda>st. Inl e)"
  by (simp add: frame_def)

lemmas frame_intros =
  frame_seq frame_if frame_prod frame_let frame_option frame_ret frame_from_config frame_lift
  frame_lift_world frame_observe frame_run_command frame_confirm frame_record frame_raise

lemma frame_check_tool_installed: "frame (check_tool_installed E tool)"
  unfolding check_tool_installed_def by (intro frame_intros)

lemma frame_install_tool: "frame (install_tool E tool)"
  unfolding install_tool_def by (intro frame_intros)

lemmas frame_tools = frame_intros frame_check_tool_installed frame_install_tool

lemma frame_check_linter: "frame (check_linter E)"
  unfolding check_linter_def by (intro frame_tools)

lemma frame_fix_linter: "frame (fix_linter E)"
  unfolding fix_linter_def by (intro frame_tools)

lemma frame_check_tests: "frame (check_tests E)"
  unfolding check_tests_def by (intro frame_tools)

lemma frame_check_django: "frame (check_django E)"
  unfolding check_django_def by (intro frame_tools)

lemma frame_check_security: "frame (check_security E)"
  unfolding check_security_def bandit_scan_def safety_scan_def secrets_scan_def
  by (intro frame_tools)

lemma frame_scan_forbidden: "frame (scan_forbidden E files found)"
proof (induction files arbitrary: found)
  case Nil
  then show ?case by (simp add: frame_ret)
next
  case (Cons f files)
  show ?case
  proof (cases f)
    case (JStr s)
    show ?thesis
      unfolding JStr scan_forbidden.simps by (intro frame_tools Cons)
  qed (simp_all add: frame_raise)
qed

lemma frame_check_files: "frame (check_files E)"
  unfolding check_files_def by (intro frame_tools frame_scan_forbidden)

lemma frame_check_git: "frame (check_git E)"
  unfolding check_git_def by (intro frame_tools)

lemma checks_framed:
  "(nm, chk, fo) \<in> set (checks E) \<Longrightarrow> frame chk \<and> (\<forall>f. fo = Some f \<longrightarrow> frame f)"
  by (auto simp: checks_def frame_check_linter frame_fix_linter frame_check_tests frame_check_django
        frame_check_security frame_check_files frame_check_git)

lemma left_failing_append:
  "\<forall>x \<in> set xs. fst x < j \<Longrightarrow> \<forall>y \<in> set ys. j \<le> fst y \<Longrightarrow>
   left_failing (xs @ ys) = left_failing xs @ left_failing ys"
proof (induction xs rule: left_failing.induct)
  case 1
  then show ?case by simp
next
  case (2 i n r)
  then show ?case by (cases ys) auto
next
  case (3 i n r k m q es)
  then show ?case by auto
qed

lemma positions_append:
  "\<forall>x \<in> set xs. fst x < j \<Longrightarrow> \<forall>y \<in> set ys. j \<le> fst y \<Longrightarrow>
   positions (xs @ ys) = positions xs @ positions ys"
proof (induction xs rule: positions.induct)
  case 1
  then show ?case by simp
next
  case (2 i n r)
  then show ?case by (cases ys) auto
next
  case (3 i n r k m q es)
  then show ?case by auto
qed

text \<open>One turn of the loop, then the whole loop, when strict mode is off: the turn never
  returns from the run, it adds the entry of its check exactly when the last evaluation of
  the check did not pass, and every position of the table is evaluated in order.\<close>

lemma turn_nonstrict:
  assumes fr: "frame chk" "\<And>f. fo = Some f \<Longrightarrow> frame f"
      and ns: "\<not> truthy (strict_mode st)"
      and run: "run_check E i (nm, chk, fo) ap tr st = Inr ((fl, tr'), st')"
  shows "\<exists>evs. tr' = tr @ evs
           \<and> (\<forall>x \<in> set (evaluations evs). fst x = i)
           \<and> positions (evaluations evs) = [i]
           \<and> fl = Proceed (ap \<and> left_failing (evaluations evs) = [])
           \<and> errors st' = errors st @ map entry (left_failing (evaluations evs))
           \<and> strict_mode st' = strict_mode st"
proof -
  from run obtain r st1 where c1: "chk st = Inr (r, st1)"
    by (auto simp: run_check_def seq_def split: sum.splits)
  from frameD [OF fr(1) c1] have k1: "errors st1 = errors st" "strict_mode st1 = strict_mode st"
    by simp_all
  have b: "\<And>q t s. errors s = errors st \<Longrightarrow> strict_mode s = strict_mode st \<Longrightarrow>
             blocked nm q t s = Inr ((Proceed False, t), s\<lparr>errors := errors st @ [entry (nm, q)]\<rparr>)"
    using ns by (simp add: blocked_def entry_def)
  show ?thesis
  proof (cases "passed r")
    case True
    with run c1 have "fl = Proceed ap" "tr' = tr @ [Evaluated i nm r]" "st' = st1"
      by (simp_all add: run_check_def seq_def ret_def Let_def)
    with True k1 show ?thesis
      by (intro exI [of _ "[Evaluated i nm r]"]) simp
  next
    case False
    note np = False
    show ?thesis
    proof (cases "\<exists>f. fo = Some f \<and> can_fix r \<and> truthy (auto_fix st1)")
      case False
      with run c1 np have "Inr ((fl, tr'), st') = blocked nm r (tr @ [Evaluated i nm r]) st1"
        by (cases fo) (auto simp: run_check_def seq_def ret_def Let_def)
      with b [OF k1] have "fl = Proceed False" "tr' = tr @ [Evaluated i nm r]"
        "st' = st1\<lparr>errors := errors st @ [entry (nm, r)]\<rparr>"
        by simp_all
      with np k1 show ?thesis
        by (intro exI [of _ "[Evaluated i nm r]"]) simp
    next
      case True
      then obtain f where f: "fo = Some f" "can_fix r" "truthy (auto_fix st1)" by blast
      from run c1 np f obtain answer st2 where
        c2: "confirm E (py ''   Corriger automatiquement ?'') st1 = Inr (answer, st2)"
        by (auto simp: run_check_def seq_def ret_def Let_def split: sum.splits)
      from frameD [OF frame_confirm c2] k1 have
        k2: "errors st2 = errors st" "strict_mode st2 = strict_mode st" by simp_all
      show ?thesis
      proof (cases "truthy answer")
        case False
        with run c1 np f c2 have
          "Inr ((fl, tr'), st') = blocked nm r (tr @ [Evaluated i nm r, Confirmation False]) st2"
          by (simp add: run_check_def seq_def ret_def Let_def)
        with b [OF k2] have "fl = Proceed False" "tr' = tr @ [Evaluated i nm r, Confirmation False]"
          "st' = st2\<lparr>errors := errors st @ [entry (nm, r)]\<rparr>"
          by simp_all
        with np k2 show ?thesis
          by (intro exI [of _ "[Evaluated i nm r, Confirmation False]"]) simp
      next
        case True
        note ta = True
        from run c1 np f c2 ta obtain fixed st3 where c3: "f st2 = Inr (fixed, st3)"
          by (auto simp: run_check_def seq_def ret_def Let_def split: sum.splits)
        from frameD [OF fr(2) [OF f(1)] c3] k2 have
          k3: "errors st3 = errors st" "strict_mode st3 = strict_mode st" by simp_all
        show ?thesis
        proof (cases fixed)
          case False
          with run c1 np f c2 ta c3 have
            "Inr ((fl, tr'), st')
               = blocked nm r (tr @ [Evaluated i nm r, Confirmation True, Fixer nm False]) st3"
            by (simp add: run_check_def seq_def ret_def Let_def)
          with b [OF k3] have "fl = Proceed False"
            "tr' = tr @ [Evaluated i nm r, Confirmation True, Fixer nm False]"
            "st' = st3\<lparr>errors := errors st @ [entry (nm, r)]\<rparr>"
            by simp_all
          with np k3 show ?thesis
            by (intro exI [of _ "[Evaluated i nm r, Confirmation True, Fixer nm False]"]) simp
        next
          case True
          note fx = True
          from run c1 np f c2 ta c3 fx obtain r2 st4 where c4: "chk st3 = Inr (r2, st4)"
            by (auto simp: run_check_def seq_def ret_def Let_def split: sum.splits)
          from frameD [OF fr(1) c4] k3 have
            k4: "errors st4 = errors st" "strict_mode st4 = strict_mode st" by simp_all
          let ?evs = "[Evaluated i nm r, Confirmation True, Fixer nm True, Evaluated i nm r2]"
          show ?thesis
          proof (cases "passed r2")
            case True
            with run c1 np f c2 ta c3 fx c4 have "fl = Proceed ap" "tr' = tr @ ?evs"
              "st' = st4\<lparr>fixes_applied := fixes_applied st4 @ [nm]\<rparr>"
              by (simp_all add: run_check_def seq_def ret_def Let_def)
            with True k4 show ?thesis
              by (intro exI [of _ ?evs]) simp
          next
            case False
            with run c1 np f c2 ta c3 fx c4 have
              "Inr ((fl, tr'), st') = blocked nm r2 (tr @ ?evs) st4"
              by (simp add: run_check_def seq_def ret_def Let_def)
            with b [OF k4] have "fl = Proceed False" "tr' = tr @ ?evs"
              "st' = st4\<lparr>errors := errors st @ [entry (nm, r2)]\<rparr>"
              by simp_all
            with False k4 show ?thesis
              by (intro exI [of _ ?evs]) simp
          qed
        qed
      qed
    qed
  qed
qed

lemma loop_nonstrict:
  assumes "\<And>nm chk fo. (nm, chk, fo) \<in> set cs \<Longrightarrow> frame chk \<and> (\<forall>f. fo = Some f \<longrightarrow> frame f)"
      and "\<not> truthy (strict_mode st)"
      and "run_loop E i cs ap tr st = Inr ((fl, tr'), st')"
  shows "\<exists>evs. tr' = tr @ evs
           \<and> (\<forall>x \<in> set (evaluations evs). i \<le> fst x)
           \<and> positions (evaluations evs) = [i ..< i + length cs]
           \<and> fl = Proceed (ap \<and> left_failing (evaluations evs) = [])
           \<and> errors st' = errors st @ map entry (left_failing (evaluations evs))"
  using assms
proof (induction cs arbitrary: i ap tr st)
  case Nil
  then show ?case by simp
next
  case (Cons c cs)
  obtain nm chk fo where c: "c = (nm, chk, fo)" by (cases c)
  have fr: "frame chk" "\<And>f. fo = Some f \<Longrightarrow> frame f"
    using Cons.prems(1) [of nm chk fo] c by auto
  from Cons.prems(3) obtain fl1 tr1 st1 where
    t: "run_check E i (nm, chk, fo) ap tr st = Inr ((fl1, tr1), st1)"
    by (auto simp: c split: sum.splits)
  from turn_nonstrict [OF fr Cons.prems(2) t] obtain evs1 where
    e1: "tr1 = tr @ evs1" "\<forall>x \<in> set (evaluations evs1). fst x = i"
        "positions (evaluations evs1) = [i]"
        "fl1 = Proceed (ap \<and> left_failing (evaluations evs1) = [])"
        "errors st1 = errors st @ map entry (left_failing (evaluations evs1))"
        "strict_mode st1 = strict_mode st"
    by blast
  from Cons.prems(3) t e1(4) have
    r: "run_loop E (Suc i) cs (ap \<and> left_failing (evaluations evs1) = []) tr1 st1 = Inr ((fl, tr'), st')"
    by (simp add: c)
  have ns1: "\<not> truthy (strict_mode st1)" using Cons.prems(2) e1(6) by simp
  have "\<exists>evs. tr' = tr1 @ evs
           \<and> (\<forall>x \<in> set (evaluations evs). Suc i \<le> fst x)
           \<and> positions (evaluations evs) = [Suc i ..< Suc i + length cs]
           \<and> fl = Proceed ((ap \<and> left_failing (evaluations evs1) = []) \<and> left_failing (evaluations evs) = [])
           \<and> errors st' = errors st1 @ map entry (left_failing (evaluations evs))"
  proof (rule Cons.IH [OF _ ns1 r])
    fix nm chk fo
    assume "(nm, chk, fo) \<in> set cs"
    then show "frame chk \<and> (\<forall>f. fo = Some f \<longrightarrow> frame f)"
      using Cons.prems(1) [of nm chk fo] by simp
  qed
  then obtain evs2 where
    e2: "tr' = tr1 @ evs2" "\<forall>x \<in> set (evaluations evs2). Suc i \<le> fst x"
        "positions (evaluations evs2) = [Suc i ..< Suc i + length cs]"
        "fl = Proceed ((ap \<and> left_failing (evaluations evs1) = []) \<and> left_failing (evaluations evs2) = [])"
        "errors st' = errors st1 @ map entry (left_failing (evaluations evs2))"
    by blast
  have lt: "\<forall>x \<in> set (evaluations evs1). fst x < Suc i" using e1(2) by auto
  have lf: "left_failing (evaluations (evs1 @ evs2))
              = left_failing (evaluations evs1) @ left_failing (evaluations evs2)"
    by (simp add: evaluations_append left_failing_append [OF lt e2(2)])
  have lt2: "i < Suc (i + length cs)" by simp
  have ps: "positions (evaluations (evs1 @ evs2)) = [i ..< i + length (c # cs)]"
  proof -
    have "positions (evaluations (evs1 @ evs2)) = [i] @ [Suc i ..< Suc i + length cs]"
      by (simp only: evaluations_append positions_append [OF lt e2(2)] e1(3) e2(3))
    also have "\<dots> = i # [Suc i ..< Suc (i + length cs)]"
      by (simp del: upt_Suc)
    also have "\<dots> = [i ..< Suc (i + length cs)]"
      by (rule upt_conv_Cons [OF lt2, symmetric])
    also have "\<dots> = [i ..< i + length (c # cs)]"
      by (simp del: upt_Suc)
    finally show ?thesis .
  qed
  have ge: "\<forall>x \<in> set (evaluations (evs1 @ evs2)). i \<le> fst x"
    using e1(2) e2(2) by (auto simp: evaluations_append)
  show ?case
    by (intro exI [of _ "evs1 @ evs2"]) (use e1(1,5) e2(1,4,5) lf ps ge in auto)
qed

text \<open>
  Claim C4. Take any run of \<^verbatim>\<open>run_all_checks\<close> that starts with strict mode off and returns.
  For each check left failing (its last evaluation did not pass, so it was not repaired) the
  run appends exactly one entry, \<^verbatim>\<open>name: message\<close>, to \<^verbatim>\<open>errors\<close>, in the order of the
  table, and nothing else is appended: \<^verbatim>\<open>errors\<close> grows by as many entries as there are
  failing checks (by two when two checks fail). All six positions of the table are
  evaluated, in order, whatever fails. The verdict is \<^verbatim>\<open>True\<close> exactly when no check was left
  failing, which for a checker that started with no error (as \<^verbatim>\<open>__init__\<close> builds it) is
  exactly when \<^verbatim>\<open>errors\<close> is empty at the end; the summary printed last is that verdict.
\<close>

theorem non_strict_collects_failures:
  assumes "\<not> truthy (strict_mode st)"
      and "run_all_checks E st = Inr ((v, tr), st')"
  shows "errors st' = errors st @ map entry (left_failing (evaluations tr))
         \<and> length (errors st') = length (errors st) + length (left_failing (evaluations tr))
         \<and> positions (evaluations tr) = [1, 2, 3, 4, 5, 6]
         \<and> (v \<longleftrightarrow> left_failing (evaluations tr) = [])
         \<and> (errors st = [] \<longrightarrow> (v \<longleftrightarrow> errors st' = []))
         \<and> last tr = Summary v"
proof -
  from assms(2) obtain fl tr0 where
    l: "run_loop E 1 (checks E) True [] st = Inr ((fl, tr0), st')"
    by (auto simp: run_all_checks_def run_checks_def split: sum.splits prod.splits flow.splits)
  from loop_nonstrict [OF checks_framed assms(1) l] have
    e: "positions (evaluations tr0) = [1 ..< 1 + length (checks E)]"
       "fl = Proceed (left_failing (evaluations tr0) = [])"
       "errors st' = errors st @ map entry (left_failing (evaluations tr0))"
    by auto
  from assms(2) l e(2) have t: "tr = tr0 @ [Summary v]" "v \<longleftrightarrow> left_failing (evaluations tr0) = []"
    by (auto simp: run_all_checks_def run_checks_def)
  have ev: "evaluations tr = evaluations tr0"
    by (simp add: t(1) evaluations_append)
  have six: "[1 ..< 1 + length (checks E)] = [1, 2, 3, 4, 5, 6]"
    by (simp add: checks_def upt_rec)
  have p: "positions (evaluations tr) = [1, 2, 3, 4, 5, 6]"
    using e(1) six by (simp only: ev)
  have q: "errors st' = errors st @ map entry (left_failing (evaluations tr))"
    using e(3) by (simp only: ev)
  have w: "v \<longleftrightarrow> left_failing (evaluations tr) = []"
    using t(2) by (simp only: ev)
  have z: "last tr = Summary v"
    using t(1) by simp
  show ?thesis
    using p q w z by auto
qed

theorem non_strict_collects_failures_witness:
  "\<exists>v tr st'.
      init (scripted flake8_fails EndOfInput (Loaded (linter_and_tests False)) True)
           (py ''scripts/pre-commit-config.json'') ()
        = Inr ((fresh (linter_and_tests False))\<lparr>strict_mode := JBool False\<rparr>)
    \<and> run_all_checks (scripted flake8_fails EndOfInput (Loaded (linter_and_tests False)) True)
          ((fresh (linter_and_tests False))\<lparr>strict_mode := JBool False\<rparr>)
        = Inr ((v, tr), st')
    \<and> map fst (left_failing (evaluations tr)) = [py ''Linter'', py ''Tests'']
    \<and> length (errors st') = 2
    \<and> positions (evaluations tr) = [1, 2, 3, 4, 5, 6]
    \<and> \<not> v
    \<and> last tr = Summary False"
proof -
  let ?E = "scripted flake8_fails EndOfInput (Loaded (linter_and_tests False)) True"
  let ?st = "(fresh (linter_and_tests False))\<lparr>strict_mode := JBool False\<rparr>"
  let ?c = "run_all_checks ?E ?st"
  note ev = run_defs scenario_defs lookup_defs str_nat_digit str_nat_100
  have made: "init ?E (py ''scripts/pre-commit-config.json'') () = Inr ?st"
    by (simp add: ev)
  have ns: "\<not> truthy (strict_mode ?st)"
    by simp
  have run: "?c = Inr ((fst (fst (projr ?c)), snd (fst (projr ?c))), snd (projr ?c))"
    by (simp add: ev)
  have two: "map fst (left_failing (evaluations (snd (fst (projr ?c))))) = [py ''Linter'', py ''Tests'']"
    by (simp add: ev)
  have len: "length (left_failing (evaluations (snd (fst (projr ?c))))) = 2"
    using arg_cong [OF two, of length] by simp
  have none: "errors ?st = []"
    by (simp add: fresh_def)
  from non_strict_collects_failures [OF ns run] len none
  have "length (errors (snd (projr ?c))) = 2"
       "positions (evaluations (snd (fst (projr ?c)))) = [1, 2, 3, 4, 5, 6]"
       "\<not> fst (fst (projr ?c))"
       "last (snd (fst (projr ?c))) = Summary (fst (fst (projr ?c)))"
    by auto
  with made run two show ?thesis
    by (intro exI [of _ "fst (fst (projr ?c))"] exI [of _ "snd (fst (projr ?c))"]
              exI [of _ "snd (projr ?c)"]) simp
qed

subsection \<open>The commit message convention\<close>

lemma split_nl_nonempty: "split_nl s \<noteq> []"
  by (induction s) (auto split: list.splits)

lemma run_command_keeps:
  "run_command E c t st = Inr (x, st') \<Longrightarrow>
   config st' = config st \<and> warnings st' = warnings st \<and> errors st' = errors st"
  by (auto simp: run_command_def Let_def split: prod.splits proc.splits)

lemma join_json_any_separator: "join_json a v = Inr x \<Longrightarrow> \<exists>y. join_json b v = Inr y"
  by (auto simp: join_json_def and_then_def split: sum.splits)

lemma contains_prefix: "contains (ys @ zs) ys"
proof (cases "ys @ zs")
  case Nil
  then show ?thesis by simp
next
  case (Cons c cs)
  have "startswith (ys @ zs) ys" by (simp add: startswith_def)
  then show ?thesis by (simp add: Cons)
qed

lemma contains_mid: "contains (xs @ ys @ zs) ys"
  by (induction xs) (simp_all add: contains_prefix)

lemma warning_mentions_format:
  "contains (convention_warning m types) (py ''Format attendu: type: description'')"
  using contains_mid [of "py ''Le dernier commit ne suit pas la convention: '' @ [39] @ take 50 m @ py ''...'' @ [39, 10]"
                         "py ''Format attendu: type: description''"
                         "[10] @ py ''Types autoris'' @ [233] @ py ''s: '' @ types"]
  by (simp add: convention_warning_def)

text \<open>
  Claim C8, as the script has it. Let the Git check be enabled, let its staged-files step
  be switched off or find a staged file, let \<^verbatim>\<open>conventional_commits\<close> be on, and let the last
  commit message be non-empty once stripped and not match the pattern built from the
  configured types. Then \<^verbatim>\<open>check_git\<close> returns the passing result \<^verbatim>\<open>Git OK\<close> and appends to
  \<^verbatim>\<open>warnings\<close> exactly one string, which contains \<^verbatim>\<open>Format attendu: type: description\<close>;
  \<^verbatim>\<open>errors\<close> is untouched. The turn of the check in the loop, at any position and in either
  mode, lets the loop proceed with \<^verbatim>\<open>all_passed\<close> as it was, and a run whose five earlier
  checks let the loop reach the Git check returns the verdict they left.
\<close>

theorem convention_mismatch_warns:
  assumes en: "check_param (config st) (py ''git'') (py ''enabled'') = Inr en" and ten: "truthy en"
      and cs: "check_option (config st) (py ''git'') (py ''check_staged_files'') (JBool True) = Inr cs"
      and staged: "if truthy cs
                   then run_command E (words [''git'', ''diff'', ''--cached'', ''--name-only'']) 60 st
                          = Inr ((rc, out, err), st1)
                        \<and> out \<noteq> [] \<and> split_nl (strip out) \<noteq> [[]]
                   else st1 = st"
      and cc: "check_option (config st) (py ''git'') (py ''conventional_commits'') (JBool True) = Inr cc"
      and tcc: "truthy cc"
      and log: "run_command E (words [''git'', ''log'', ''-1'', ''--pretty=%B'']) 60 st1
                  = Inr ((rc2, out2, err2), st2)"
      and msg: "strip out2 \<noteq> []"
      and types: "check_option (config st) (py ''git'') (py ''allowed_types'') default_types = Inr types"
      and joined: "join_json (py ''|'') types = Inr joined"
      and mismatch: "re_match_ic E (commit_pattern joined) (strip out2) = Inr False"
  shows "\<exists>listed result st'.
             join_json (py '', '') types = Inr listed
           \<and> result = mk_result (py ''Git'') True (py ''Git OK'') False [] []
           \<and> st' = st2\<lparr>warnings := warnings st2 @ [convention_warning (strip out2) listed]\<rparr>
           \<and> check_git E st = Inr (result, st')
           \<and> passed result
           \<and> warnings st' = warnings st @ [convention_warning (strip out2) listed]
           \<and> contains (convention_warning (strip out2) listed) (py ''Format attendu: type: description'')
           \<and> errors st' = errors st
           \<and> run_check E i (py ''Git'', check_git E, fo) ap tr st
               = Inr ((Proceed ap, tr @ [Evaluated i (py ''Git'') result]), st')
           \<and> (run_loop E 1 (butlast (checks E)) True [] st0 = Inr ((Proceed ap, tr), st)
                \<longrightarrow> run_all_checks E st0
                      = Inr ((ap, tr @ [Evaluated 6 (py ''Git'') result, Summary ap]), st'))"
proof -
  let ?result = "mk_result (py ''Git'') True (py ''Git OK'') False [] []"
  obtain listed where l: "join_json (py '', '') types = Inr listed"
    using join_json_any_separator [OF joined] by blast
  let ?st' = "st2\<lparr>warnings := warnings st2 @ [convention_warning (strip out2) listed]\<rparr>"
  have k1: "config st1 = config st" "warnings st1 = warnings st" "errors st1 = errors st"
    using staged run_command_keeps [of E _ 60 st _ st1] by (auto split: if_splits)
  have k2: "config st2 = config st" "warnings st2 = warnings st" "errors st2 = errors st"
    using run_command_keeps [OF log] k1 by simp_all
  have o2: "out2 \<noteq> []"
    using msg by (auto simp: strip_def)
  have run: "check_git E st = Inr (?result, ?st')"
  proof (cases "truthy cs")
    case True
    with staged have d:
      "run_command E (words [''git'', ''diff'', ''--cached'', ''--name-only'']) 60 st = Inr ((rc, out, err), st1)"
      "out \<noteq> []" "split_nl (strip out) \<noteq> [[]]"
      by simp_all
    show ?thesis
      using en ten cs True d cc tcc log msg o2 types joined mismatch l k1(1) k2(1) split_nl_nonempty
      by (simp add: check_git_def seq_def from_config_def ret_def lift_def Let_def)
  next
    case False
    with staged have d: "st1 = st" by simp
    show ?thesis
      using en ten cs False d cc tcc log msg o2 types joined mismatch l k1(1) k2(1)
      by (simp add: check_git_def seq_def from_config_def ret_def lift_def Let_def)
  qed
  have p: "passed ?result"
    by (simp add: mk_result_def)
  have turn: "run_check E j (py ''Git'', check_git E, fo) ap tr st
                = Inr ((Proceed ap, tr @ [Evaluated j (py ''Git'') ?result]), ?st')" for j
    using run p by (simp add: passing_turn)
  have table: "checks E = butlast (checks E) @ [(py ''Git'', check_git E, None)]"
    by (simp add: checks_def)
  have whole: "run_all_checks E st0 = Inr ((ap, tr @ [Evaluated 6 (py ''Git'') ?result, Summary ap]), ?st')"
    if before: "run_loop E 1 (butlast (checks E)) True [] st0 = Inr ((Proceed ap, tr), st)"
  proof -
    have five: "1 + length (butlast (checks E)) = 6"
      by (simp add: checks_def)
    have last_turn: "run_check E 6 (py ''Git'', check_git E, None) ap tr st
                = Inr ((Proceed ap, tr @ [Evaluated 6 (py ''Git'') ?result]), ?st')"
      using run p by (simp add: passing_turn)
    have "run_loop E 1 (butlast (checks E) @ [(py ''Git'', check_git E, None)]) True [] st0
            = Inr ((Proceed ap, tr @ [Evaluated 6 (py ''Git'') ?result]), ?st')"
      by (simp only: run_loop_append before five sum.case prod.case flow.case run_loop.simps last_turn)
    then have "run_loop E 1 (checks E) True [] st0
            = Inr ((Proceed ap, tr @ [Evaluated 6 (py ''Git'') ?result]), ?st')"
      using table by simp
    then show ?thesis
      by (simp add: run_all_checks_def run_checks_def)
  qed
  show ?thesis
    using l run p k2 warning_mentions_format turn whole
    by (intro exI [of _ listed] exI [of _ ?result] exI [of _ ?st']) simp
qed

theorem convention_mismatch_warns_witness:
  "\<exists>tr warning st'.
     run_all_checks (scripted (git_history True (py ''update stuff'')) EndOfInput (Loaded (git_only True)) False)
       (fresh (git_only True))
       = Inr ((True, tr), st')
     \<and> last (evaluations tr) = (6, py ''Git'', mk_result (py ''Git'') True (py ''Git OK'') False [] [])
     \<and> warnings st' = [warning]
     \<and> errors st' = []
     \<and> contains warning (py ''Format attendu: type: description'')"
proof -
  let ?E = "scripted (git_history True (py ''update stuff'')) EndOfInput (Loaded (git_only True)) False"
  let ?st = "fresh (git_only True)"
  let ?diff = "words [''git'', ''diff'', ''--cached'', ''--name-only'']"
  let ?log = "words [''git'', ''log'', ''-1'', ''--pretty=%B'']"
  let ?st1 = "?st\<lparr>world := (), actions := actions ?st @ [Ran ?diff 60]\<rparr>"
  let ?st2 = "?st1\<lparr>world := (), actions := actions ?st1 @ [Ran ?log 60]\<rparr>"
  let ?types = "JList [JStr (py ''feat''), JStr (py ''fix''), JStr (py ''docs'')]"
  let ?before = "run_loop ?E 1 (butlast (checks ?E)) True [] ?st"
  note ev = run_defs scenario_defs lookup_defs git_only_def git_history_def
  have en: "check_param (config ?st) (py ''git'') (py ''enabled'') = Inr (JBool True)"
    by (simp add: ev)
  have ten: "truthy (JBool True)" by simp
  have cs: "check_option (config ?st) (py ''git'') (py ''check_staged_files'') (JBool True) = Inr (JBool True)"
    by (simp add: ev)
  have staged: "if truthy (JBool True)
                then run_command ?E ?diff 60 ?st = Inr ((0, py ''a.py'' @ [10], []), ?st1)
                     \<and> py ''a.py'' @ [10] \<noteq> [] \<and> split_nl (strip (py ''a.py'' @ [10])) \<noteq> [[]]
                else ?st1 = ?st"
    by (simp add: ev)
  have cc: "check_option (config ?st) (py ''git'') (py ''conventional_commits'') (JBool True) = Inr (JBool True)"
    by (simp add: ev)
  have log: "run_command ?E ?log 60 ?st1 = Inr ((0, py ''update stuff'' @ [10], []), ?st2)"
    by (simp add: ev)
  have msg: "strip (py ''update stuff'' @ [10]) \<noteq> []"
    by (simp add: ev)
  have types: "check_option (config ?st) (py ''git'') (py ''allowed_types'') default_types = Inr ?types"
    by (simp add: ev)
  have joined: "join_json (py ''|'') ?types = Inr (py ''feat|fix|docs'')"
    by (simp add: ev)
  have mismatch: "re_match_ic ?E (commit_pattern (py ''feat|fix|docs'')) (strip (py ''update stuff'' @ [10]))
                    = Inr False"
    by (simp add: scripted_def)
  have before: "?before = Inr ((Proceed True, snd (fst (projr ?before))), ?st)"
    by (simp add: ev)
  from convention_mismatch_warns [OF en ten cs staged cc ten log msg types joined mismatch,
         where ?st0.0 = ?st and ap = True and tr = "snd (fst (projr ?before))"] before
  obtain listed st' where
    "run_all_checks ?E ?st
       = Inr ((True, snd (fst (projr ?before))
                 @ [Evaluated 6 (py ''Git'') (mk_result (py ''Git'') True (py ''Git OK'') False [] []),
                    Summary True]), st')"
    "warnings st' = warnings ?st @ [convention_warning (strip (py ''update stuff'' @ [10])) listed]"
    "errors st' = errors ?st"
    "contains (convention_warning (strip (py ''update stuff'' @ [10])) listed)
       (py ''Format attendu: type: description'')"
    by blast
  then show ?thesis
    by (intro exI [of _ "snd (fst (projr ?before))
                 @ [Evaluated 6 (py ''Git'') (mk_result (py ''Git'') True (py ''Git OK'') False [] []),
                    Summary True]"]
              exI [of _ "convention_warning (strip (py ''update stuff'' @ [10])) listed"]
              exI [of _ st'])
       (simp add: fresh_def evaluations_append)
qed

text \<open>
  Claim C8 as stated does not hold for every mismatching message. With the same message
  \<^verbatim>\<open>update stuff\<close> and nothing staged, the check fails with \<^verbatim>\<open>Aucun fichier staged\<close> before
  it reads the message, and no warning is recorded. With a staged file, an empty last
  message is not warned about, and with \<^verbatim>\<open>conventional_commits\<close> off the message is not read:
  in both cases the check passes and \<^verbatim>\<open>warnings\<close> stays empty. (The matching function of
  these environments answers that nothing matches.)
\<close>

theorem unwarned_mismatch_counterexample:
  "(\<exists>r st'. check_git (scripted (git_history False (py ''update stuff'')) EndOfInput (Loaded (git_only True)) False)
                      (fresh (git_only True))
              = Inr (r, st')
            \<and> \<not> passed r \<and> warnings st' = [])
   \<and> (\<exists>r st'. check_git (scripted (git_history True []) EndOfInput (Loaded (git_only True)) False)
                      (fresh (git_only True))
              = Inr (r, st')
            \<and> passed r \<and> warnings st' = [])
   \<and> (\<exists>r st'. check_git (scripted (git_history True (py ''update stuff'')) EndOfInput (Loaded (git_only False)) False)
                      (fresh (git_only False))
              = Inr (r, st')
            \<and> passed r \<and> warnings st' = [])"
  by (simp add: run_defs scenario_defs lookup_defs git_only_def git_history_def)

end
